theory Spec2Isabelle
  imports Main "HOL-Library.Finite_Map"
begin

section \<open>Lexer tokens\<close>

text \<open>
  The parser file refers to the token ids below. \<open>TokenSHOWTERM\<close> is declared by the
  parser itself (\<open>LexTokenID(-1)\<close>); the others come from the lexer. \<open>TokenError\<close> marks a
  lexer error and \<open>TokenGeneral\<close> is the id that \<open>ASTFromPlain\<close> gives to the tokens it
  mints; neither has an entry in \<open>astNodeMap\<close>.
\<close>

datatype LexTokenID =
    TokenError | TokenEOF | TokenVALUE | TokenNODEKIND | TokenGeneral
  | TokenTRUE | TokenFALSE | TokenNULL
  | TokenAT | TokenORDERING | TokenFILTERING | TokenNULLTRAVERSAL
  | TokenCOMMA | TokenGROUP | TokenEND | TokenAS | TokenFORMAT
  | TokenGET | TokenLOOKUP | TokenFROM | TokenWHERE
  | TokenUNIQUE | TokenUNIQUECOUNT | TokenISNOTNULL | TokenASCENDING | TokenDESCENDING
  | TokenTRAVERSE | TokenPRIMARY | TokenSHOW | TokenSHOWTERM | TokenWITH | TokenLIST
  | TokenNOT | TokenOR | TokenAND
  | TokenGEQ | TokenLEQ | TokenNEQ | TokenEQ | TokenGT | TokenLT
  | TokenLIKE | TokenIN | TokenCONTAINS | TokenBEGINSWITH | TokenENDSWITH
  | TokenCONTAINSNOT | TokenNOTIN
  | TokenPLUS | TokenMINUS | TokenTIMES | TokenDIV | TokenMODINT | TokenDIVINT
  | TokenLPAREN | TokenRPAREN | TokenLBRACK | TokenRBRACK

text \<open>
  \<open>LexToken\<close> has five fields, in the order of the positional literal
  \<open>LexToken{TokenGeneral, 0, fmt.Sprint(value), 0, 0}\<close> of \<open>ASTFromPlain\<close>: the id, the
  position in the input, the value, the line and the column.
\<close>

record LexToken =
  ID :: LexTokenID
  Pos :: nat
  Val :: string
  Lline :: nat
  Lpos :: nat

section \<open>AST nodes\<close>

text \<open>
  The two function-valued fields of \<open>ASTNode\<close> hold one of the denotation functions of the
  parser file or \<open>nil\<close>; they are represented by the name of the function.
\<close>

datatype NullDenotation =
    NdTerm | NdInner | NdPrefix | NdGet | NdLookup | NdFrom | NdTraverse | NdFunc
  | NdShow | NdWith | NdWithFunc | NdList

datatype LeftDenotation = LdInfix

text \<open>The runtime component attached to a node is opaque to the parser.\<close>

datatype Runtime = RuntimeHandle nat

datatype ASTNode = ASTNode
  (Name: string)
  (Token: "LexToken option")
  (Children: "ASTNode list")
  (Runtime: "Runtime option")
  (binding: int)
  (nullDenotation: "NullDenotation option")
  (leftDenotation: "LeftDenotation option")

text \<open>\<open>self.Children = append(self.Children, c)\<close>\<close>

fun appendChild :: "ASTNode \<Rightarrow> ASTNode \<Rightarrow> ASTNode" where
  "appendChild (ASTNode n t cs r b nd ld) c = ASTNode n t (cs @ [c]) r b nd ld"

subsection \<open>Node names\<close>

text \<open>
  Modelled from the spec: the node name constants (\<open>NodeEOF\<close>, \<open>NodeVALUE\<close>, ...) are
  declared outside the parser file. Each one is taken to be the symbolic tag that the
  specification lists for it.
\<close>

definition NodeEOF :: string where "NodeEOF = ''EOF''"
definition NodeVALUE :: string where "NodeVALUE = ''VALUE''"
definition NodeNODEKIND :: string where "NodeNODEKIND = ''NODEKIND''"
definition NodeTRUE :: string where "NodeTRUE = ''TRUE''"
definition NodeFALSE :: string where "NodeFALSE = ''FALSE''"
definition NodeNULL :: string where "NodeNULL = ''NULL''"
definition NodeFUNC :: string where "NodeFUNC = ''FUNC''"
definition NodeORDERING :: string where "NodeORDERING = ''ORDERING''"
definition NodeFILTERING :: string where "NodeFILTERING = ''FILTERING''"
definition NodeNULLTRAVERSAL :: string where "NodeNULLTRAVERSAL = ''NULLTRAVERSAL''"
definition NodeCOMMA :: string where "NodeCOMMA = ''COMMA''"
definition NodeGROUP :: string where "NodeGROUP = ''GROUP''"
definition NodeEND :: string where "NodeEND = ''END''"
definition NodeAS :: string where "NodeAS = ''AS''"
definition NodeFORMAT :: string where "NodeFORMAT = ''FORMAT''"
definition NodeGET :: string where "NodeGET = ''GET''"
definition NodeLOOKUP :: string where "NodeLOOKUP = ''LOOKUP''"
definition NodeFROM :: string where "NodeFROM = ''FROM''"
definition NodeWHERE :: string where "NodeWHERE = ''WHERE''"
definition NodeUNIQUE :: string where "NodeUNIQUE = ''UNIQUE''"
definition NodeUNIQUECOUNT :: string where "NodeUNIQUECOUNT = ''UNIQUECOUNT''"
definition NodeISNOTNULL :: string where "NodeISNOTNULL = ''ISNOTNULL''"
definition NodeASCENDING :: string where "NodeASCENDING = ''ASCENDING''"
definition NodeDESCENDING :: string where "NodeDESCENDING = ''DESCENDING''"
definition NodeTRAVERSE :: string where "NodeTRAVERSE = ''TRAVERSE''"
definition NodePRIMARY :: string where "NodePRIMARY = ''PRIMARY''"
definition NodeSHOW :: string where "NodeSHOW = ''SHOW''"
definition NodeSHOWTERM :: string where "NodeSHOWTERM = ''SHOWTERM''"
definition NodeWITH :: string where "NodeWITH = ''WITH''"
definition NodeLIST :: string where "NodeLIST = ''LIST''"
definition NodeNOT :: string where "NodeNOT = ''NOT''"
definition NodeOR :: string where "NodeOR = ''OR''"
definition NodeAND :: string where "NodeAND = ''AND''"
definition NodeGEQ :: string where "NodeGEQ = ''GEQ''"
definition NodeLEQ :: string where "NodeLEQ = ''LEQ''"
definition NodeNEQ :: string where "NodeNEQ = ''NEQ''"
definition NodeEQ :: string where "NodeEQ = ''EQ''"
definition NodeGT :: string where "NodeGT = ''GT''"
definition NodeLT :: string where "NodeLT = ''LT''"
definition NodeLIKE :: string where "NodeLIKE = ''LIKE''"
definition NodeIN :: string where "NodeIN = ''IN''"
definition NodeCONTAINS :: string where "NodeCONTAINS = ''CONTAINS''"
definition NodeBEGINSWITH :: string where "NodeBEGINSWITH = ''BEGINSWITH''"
definition NodeENDSWITH :: string where "NodeENDSWITH = ''ENDSWITH''"
definition NodeCONTAINSNOT :: string where "NodeCONTAINSNOT = ''CONTAINSNOT''"
definition NodeNOTIN :: string where "NodeNOTIN = ''NOTIN''"
definition NodePLUS :: string where "NodePLUS = ''PLUS''"
definition NodeMINUS :: string where "NodeMINUS = ''MINUS''"
definition NodeTIMES :: string where "NodeTIMES = ''TIMES''"
definition NodeDIV :: string where "NodeDIV = ''DIV''"
definition NodeMODINT :: string where "NodeMODINT = ''MODINT''"
definition NodeDIVINT :: string where "NodeDIVINT = ''DIVINT''"
definition NodeLPAREN :: string where "NodeLPAREN = ''LPAREN''"
definition NodeRPAREN :: string where "NodeRPAREN = ''RPAREN''"
definition NodeLBRACK :: string where "NodeLBRACK = ''LBRACK''"
definition NodeRBRACK :: string where "NodeRBRACK = ''RBRACK''"

lemmas node_names =
  NodeEOF_def NodeVALUE_def NodeNODEKIND_def NodeTRUE_def NodeFALSE_def NodeNULL_def
  NodeFUNC_def NodeORDERING_def NodeFILTERING_def NodeNULLTRAVERSAL_def NodeCOMMA_def
  NodeGROUP_def NodeEND_def NodeAS_def NodeFORMAT_def NodeGET_def NodeLOOKUP_def
  NodeFROM_def NodeWHERE_def NodeUNIQUE_def NodeUNIQUECOUNT_def NodeISNOTNULL_def
  NodeASCENDING_def NodeDESCENDING_def NodeTRAVERSE_def NodePRIMARY_def NodeSHOW_def
  NodeSHOWTERM_def NodeWITH_def NodeLIST_def NodeNOT_def NodeOR_def NodeAND_def
  NodeGEQ_def NodeLEQ_def NodeNEQ_def NodeEQ_def NodeGT_def NodeLT_def NodeLIKE_def
  NodeIN_def NodeCONTAINS_def NodeBEGINSWITH_def NodeENDSWITH_def NodeCONTAINSNOT_def
  NodeNOTIN_def NodePLUS_def NodeMINUS_def NodeTIMES_def NodeDIV_def NodeMODINT_def
  NodeDIVINT_def NodeLPAREN_def NodeRPAREN_def NodeLBRACK_def NodeRBRACK_def

subsection \<open>The table of node prototypes\<close>

text \<open>
  An entry \<open>&ASTNode{name, nil, nil, nil, binding, nd, ld}\<close> of \<open>astNodeMap\<close>: no token, no
  children, no runtime.
\<close>

definition proto :: "string \<Rightarrow> int \<Rightarrow> NullDenotation option \<Rightarrow> LeftDenotation option \<Rightarrow> ASTNode" where
  "proto n b nd ld = ASTNode n None [] None b nd ld"

fun astNodeMap :: "LexTokenID \<Rightarrow> ASTNode option" where
  "astNodeMap TokenEOF = Some (proto NodeEOF 0 (Some NdTerm) None)"
| "astNodeMap TokenVALUE = Some (proto NodeVALUE 0 (Some NdTerm) None)"
| "astNodeMap TokenNODEKIND = Some (proto NodeVALUE 0 (Some NdTerm) None)"
| "astNodeMap TokenTRUE = Some (proto NodeTRUE 0 (Some NdTerm) None)"
| "astNodeMap TokenFALSE = Some (proto NodeFALSE 0 (Some NdTerm) None)"
| "astNodeMap TokenNULL = Some (proto NodeNULL 0 (Some NdTerm) None)"
| "astNodeMap TokenAT = Some (proto NodeFUNC 0 (Some NdFunc) None)"
| "astNodeMap TokenORDERING = Some (proto NodeORDERING 0 (Some NdWithFunc) None)"
| "astNodeMap TokenFILTERING = Some (proto NodeFILTERING 0 (Some NdWithFunc) None)"
| "astNodeMap TokenNULLTRAVERSAL = Some (proto NodeNULLTRAVERSAL 0 (Some NdWithFunc) None)"
| "astNodeMap TokenCOMMA = Some (proto NodeCOMMA 0 None None)"
| "astNodeMap TokenGROUP = Some (proto NodeGROUP 0 None None)"
| "astNodeMap TokenEND = Some (proto NodeEND 0 None None)"
| "astNodeMap TokenAS = Some (proto NodeAS 0 None None)"
| "astNodeMap TokenFORMAT = Some (proto NodeFORMAT 0 None None)"
| "astNodeMap TokenGET = Some (proto NodeGET 0 (Some NdGet) None)"
| "astNodeMap TokenLOOKUP = Some (proto NodeLOOKUP 0 (Some NdLookup) None)"
| "astNodeMap TokenFROM = Some (proto NodeFROM 0 (Some NdFrom) None)"
| "astNodeMap TokenWHERE = Some (proto NodeWHERE 0 (Some NdPrefix) None)"
| "astNodeMap TokenUNIQUE = Some (proto NodeUNIQUE 0 (Some NdPrefix) None)"
| "astNodeMap TokenUNIQUECOUNT = Some (proto NodeUNIQUECOUNT 0 (Some NdPrefix) None)"
| "astNodeMap TokenISNOTNULL = Some (proto NodeISNOTNULL 0 (Some NdPrefix) None)"
| "astNodeMap TokenASCENDING = Some (proto NodeASCENDING 0 (Some NdPrefix) None)"
| "astNodeMap TokenDESCENDING = Some (proto NodeDESCENDING 0 (Some NdPrefix) None)"
| "astNodeMap TokenTRAVERSE = Some (proto NodeTRAVERSE 0 (Some NdTraverse) None)"
| "astNodeMap TokenPRIMARY = Some (proto NodePRIMARY 0 (Some NdPrefix) None)"
| "astNodeMap TokenSHOW = Some (proto NodeSHOW 0 (Some NdShow) None)"
| "astNodeMap TokenSHOWTERM = Some (proto NodeSHOWTERM 0 (Some NdShow) None)"
| "astNodeMap TokenWITH = Some (proto NodeWITH 0 (Some NdWith) None)"
| "astNodeMap TokenLIST = Some (proto NodeLIST 0 None None)"
| "astNodeMap TokenNOT = Some (proto NodeNOT 20 (Some NdPrefix) None)"
| "astNodeMap TokenOR = Some (proto NodeOR 30 None (Some LdInfix))"
| "astNodeMap TokenAND = Some (proto NodeAND 40 None (Some LdInfix))"
| "astNodeMap TokenGEQ = Some (proto NodeGEQ 60 None (Some LdInfix))"
| "astNodeMap TokenLEQ = Some (proto NodeLEQ 60 None (Some LdInfix))"
| "astNodeMap TokenNEQ = Some (proto NodeNEQ 60 None (Some LdInfix))"
| "astNodeMap TokenEQ = Some (proto NodeEQ 60 None (Some LdInfix))"
| "astNodeMap TokenGT = Some (proto NodeGT 60 None (Some LdInfix))"
| "astNodeMap TokenLT = Some (proto NodeLT 60 None (Some LdInfix))"
| "astNodeMap TokenLIKE = Some (proto NodeLIKE 60 None (Some LdInfix))"
| "astNodeMap TokenIN = Some (proto NodeIN 60 None (Some LdInfix))"
| "astNodeMap TokenCONTAINS = Some (proto NodeCONTAINS 60 None (Some LdInfix))"
| "astNodeMap TokenBEGINSWITH = Some (proto NodeBEGINSWITH 60 None (Some LdInfix))"
| "astNodeMap TokenENDSWITH = Some (proto NodeENDSWITH 60 None (Some LdInfix))"
| "astNodeMap TokenCONTAINSNOT = Some (proto NodeCONTAINSNOT 60 None (Some LdInfix))"
| "astNodeMap TokenNOTIN = Some (proto NodeNOTIN 60 None (Some LdInfix))"
| "astNodeMap TokenPLUS = Some (proto NodePLUS 110 (Some NdPrefix) (Some LdInfix))"
| "astNodeMap TokenMINUS = Some (proto NodeMINUS 110 (Some NdPrefix) (Some LdInfix))"
| "astNodeMap TokenTIMES = Some (proto NodeTIMES 120 None (Some LdInfix))"
| "astNodeMap TokenDIV = Some (proto NodeDIV 120 None (Some LdInfix))"
| "astNodeMap TokenMODINT = Some (proto NodeMODINT 120 None (Some LdInfix))"
| "astNodeMap TokenDIVINT = Some (proto NodeDIVINT 120 None (Some LdInfix))"
| "astNodeMap TokenLPAREN = Some (proto NodeLPAREN 150 (Some NdInner) None)"
| "astNodeMap TokenRPAREN = Some (proto NodeRPAREN 0 None None)"
| "astNodeMap TokenLBRACK = Some (proto NodeLBRACK 150 (Some NdList) None)"
| "astNodeMap TokenRBRACK = Some (proto NodeRBRACK 0 None None)"
| "astNodeMap TokenError = None"
| "astNodeMap TokenGeneral = None"

section \<open>The parser\<close>

subsection \<open>Errors\<close>

datatype ErrorType =
    ErrUnexpectedEnd | ErrLexicalError | ErrUnknownToken
  | ErrImpossibleNullDenotation | ErrImpossibleLeftDenotation | ErrUnexpectedToken

text \<open>
  The detail text of an error is a string literal or a token value (\<open>DetailString\<close>), the
  rendering \<open>n.Token.String()\<close> of a token (\<open>DetailToken\<close>), or the text
  \<open>fmt.Sprintf("id:%v (%v)", token.ID, token)\<close> (\<open>DetailUnknownToken\<close>). The two renderings
  are functions of the token alone and are kept symbolic.
\<close>

datatype Detail = DetailString string | DetailToken LexToken | DetailUnknownToken LexToken

text \<open>
  Modelled from the spec: \<open>newParserError\<close> and the error type are declared outside the
  parser file. By the specification a parser error has a kind and includes the offending
  token's value, line and column; the model keeps the name of the input, the kind, the
  detail and the whole token.
\<close>

datatype Error = Error (Source: string) (Type: ErrorType) (Detail: Detail) (ErrToken: LexToken)

text \<open>
  A call either returns an \<open>error\<close> value (\<open>Err\<close>) or panics at run time (\<open>Panic\<close>: a nil
  pointer is dereferenced or a slice is indexed out of range).
\<close>

datatype Failure = Panic | Err Error

subsection \<open>Parser state\<close>

text \<open>
  \<open>tokens\<close> holds what has not yet been received from the channel that the lexer fills;
  the empty list is the closed channel. \<open>node\<close> is \<open>None\<close> when the field is \<open>nil\<close>.
\<close>

record parser =
  name :: string
  node :: "ASTNode option"
  tokens :: "LexToken list"
  rp :: "(ASTNode \<Rightarrow> Runtime) option"

definition newParserError :: "parser \<Rightarrow> ErrorType \<Rightarrow> Detail \<Rightarrow> LexToken \<Rightarrow> Error" where
  "newParserError p t d token = Error (name p) t d token"

text \<open>\<open>ASTNode.instance\<close>: a copy of a prototype connected to a token.\<close>

definition node_instance :: "parser \<Rightarrow> ASTNode \<Rightarrow> LexToken option \<Rightarrow> ASTNode" where
  "node_instance p n t =
     (let ret = ASTNode (Name n) t [] None (binding n) (nullDenotation n) (leftDenotation n)
      in case rp p of
           None \<Rightarrow> ret
         | Some provider \<Rightarrow>
             ASTNode (Name n) t [] (Some (provider ret)) (binding n) (nullDenotation n)
               (leftDenotation n))"

text \<open>
  A receive from the closed channel yields the zero value of \<open>LexToken\<close>, which the
  source calls an empty error token.
\<close>

definition zeroToken :: LexToken where
  "zeroToken = \<lparr>ID = TokenError, Pos = 0, Val = [], Lline = 0, Lpos = 0\<rparr>"

text \<open>\<open>parser.next\<close>: the result and the parser with one token less in the channel.\<close>

definition parser_next :: "parser \<Rightarrow> (Error + ASTNode) \<times> parser" where
  "parser_next p =
     (case tokens p of
        [] \<Rightarrow> (Inl (newParserError p ErrUnexpectedEnd (DetailString []) zeroToken), p)
      | token # rest \<Rightarrow>
          if ID token = TokenError
          then (Inl (newParserError p ErrLexicalError (DetailString (Val token)) token),
                p\<lparr>tokens := rest\<rparr>)
          else (case astNodeMap (ID token) of
                  Some n \<Rightarrow> (Inr (node_instance p n (Some token)), p\<lparr>tokens := rest\<rparr>)
                | None \<Rightarrow>
                    (Inl (newParserError p ErrUnknownToken (DetailUnknownToken token) token),
                     p\<lparr>tokens := rest\<rparr>)))"

text \<open>The statement \<open>p.node, err = p.next()\<close>.\<close>

definition advance :: "parser \<Rightarrow> Error option \<times> parser" where
  "advance p =
     (case parser_next p of
        (Inl e, p') \<Rightarrow> (Some e, p'\<lparr>node := None\<rparr>)
      | (Inr n, p') \<Rightarrow> (None, p'\<lparr>node := Some n\<rparr>))"

text \<open>The expression \<open>p.node.Token.ID\<close>; \<open>None\<close> when a pointer on the way is nil.\<close>

definition nodeTokenID :: "parser \<Rightarrow> LexTokenID option" where
  "nodeTokenID p =
     (case node p of
        None \<Rightarrow> None
      | Some n \<Rightarrow> (case Token n of None \<Rightarrow> None | Some t \<Rightarrow> Some (ID t)))"

subsection \<open>Helper functions\<close>

fun canSkip :: "LexTokenID list \<Rightarrow> LexTokenID \<Rightarrow> bool" where
  "canSkip [] tid = False"
| "canSkip (i # ids) tid = (if i = tid then True else canSkip ids tid)"

text \<open>
  \<open>skipToken\<close> returns its error and the parser it leaves behind; the result is \<open>None\<close>
  when the call panics.
\<close>

definition skipToken :: "parser \<Rightarrow> LexTokenID list \<Rightarrow> (Error option \<times> parser) option" where
  "skipToken p ids =
     (case node p of
        None \<Rightarrow> None
      | Some n \<Rightarrow>
          (case Token n of
             None \<Rightarrow> None
           | Some t \<Rightarrow>
               if \<not> canSkip ids (ID t)
               then (if ID t = TokenEOF
                     then Some (Some (newParserError p ErrUnexpectedEnd (DetailString []) t), p)
                     else Some (Some (newParserError p ErrUnexpectedToken
                                        (DetailString (Val t)) t), p))
               else Some (advance p)))"

text \<open>
  \<open>acceptChild\<close> returns its error, the parser and the node \<open>self\<close> as it leaves them; the
  result is \<open>None\<close> when the call panics.
\<close>

definition acceptChild ::
  "parser \<Rightarrow> ASTNode \<Rightarrow> LexTokenID \<Rightarrow> (Error option \<times> parser \<times> ASTNode) option" where
  "acceptChild p self tid =
     (case advance p of
        (Some e, p') \<Rightarrow> Some (Some e, p', self)
      | (None, p') \<Rightarrow>
          (case node p of
             None \<Rightarrow> None
           | Some current \<Rightarrow>
               (case Token current of
                  None \<Rightarrow> None
                | Some t \<Rightarrow>
                    if ID t = tid
                    then Some (None, p', appendChild self current)
                    else Some (Some (newParserError p' ErrUnexpectedToken
                                       (DetailString (Val t)) t), p', self))))"

subsection \<open>Denotation functions that do not call \<open>run\<close>\<close>

text \<open>
  A denotation function returns a node and an error. Its only callers, \<open>run\<close> and the
  closure of \<open>ndShow\<close>, give up at once on an error, so a call is modelled by its failure
  or by the node it returns together with the parser it leaves behind.
\<close>

type_synonym result = "Failure + ASTNode \<times> parser"

text \<open>Every token that is taken from the channel makes the channel shorter.\<close>

lemma advance_tokens:
  "advance p = (None, p') \<Longrightarrow> length (tokens p') < length (tokens p)"
  by (auto simp: advance_def parser_next_def split: list.splits if_splits option.splits)

lemma advance_tokens_le:
  "advance p = (e, p') \<Longrightarrow> length (tokens p') \<le> length (tokens p)"
  by (auto simp: advance_def parser_next_def split: list.splits if_splits option.splits)

lemma skipToken_tokens:
  "skipToken p ids = Some (None, p') \<Longrightarrow> length (tokens p') < length (tokens p)"
  by (auto simp: skipToken_def split: option.splits if_splits dest: advance_tokens)

lemma skipToken_tokens_le:
  "skipToken p ids = Some (e, p') \<Longrightarrow> length (tokens p') \<le> length (tokens p)"
  by (auto simp: skipToken_def split: option.splits if_splits dest: advance_tokens_le)

lemma acceptChild_tokens:
  "acceptChild p self tid = Some (None, p', self') \<Longrightarrow> length (tokens p') < length (tokens p)"
  by (auto simp: acceptChild_def split: option.splits if_splits prod.splits dest: advance_tokens)

lemma acceptChild_tokens_le:
  "acceptChild p self tid = Some (e, p', self') \<Longrightarrow> length (tokens p') \<le> length (tokens p)"
  by (auto simp: acceptChild_def split: option.splits if_splits prod.splits dest: advance_tokens_le)

text \<open>
  The loop \<open>for skipToken(p, TokenCOMMA) == nil { acceptChild(p, self, TokenVALUE) ... }\<close>
  of \<open>ndLookup\<close> and of \<open>ndFunc\<close>. It ends when \<open>skipToken\<close> returns an error, whatever the
  error is.
\<close>

function commaValues :: "parser \<Rightarrow> ASTNode \<Rightarrow> result" where
  "commaValues p self =
     (case skipToken p [TokenCOMMA] of
        None \<Rightarrow> Inl Panic
      | Some (Some e, p1) \<Rightarrow> Inr (self, p1)
      | Some (None, p1) \<Rightarrow>
          (case acceptChild p1 self TokenVALUE of
             None \<Rightarrow> Inl Panic
           | Some (Some e, p2, self2) \<Rightarrow> Inl (Err e)
           | Some (None, p2, self2) \<Rightarrow> commaValues p2 self2))"
  by pat_completeness auto
termination
  apply (relation "measure (\<lambda>(p, self). length (tokens p))")
   apply simp
  apply (auto dest!: skipToken_tokens acceptChild_tokens)
  done

declare commaValues.simps [simp del]

lemma commaValues_tokens_le:
  "commaValues p self = Inr (a, p') \<Longrightarrow> length (tokens p') \<le> length (tokens p)"
proof (induction p self arbitrary: a p' rule: commaValues.induct)
  case (1 p self)
  from "1.prems" show ?case
    apply (subst (asm) commaValues.simps)
    apply (simp split: option.split_asm prod.split_asm)
    subgoal for x2 x1 x2a x2b x1a x2c x1b x2d
      using "1.IH"[of "(None, x2a)" None x2a "(None, x1b, x2d)" None "(x1b, x2d)" x1b x2d a p']
        skipToken_tokens_le[of p "[TokenCOMMA]" None x2a]
        acceptChild_tokens_le[of x2a self TokenVALUE None x1b x2d]
      by simp
    subgoal by (auto dest: skipToken_tokens_le)
    done
qed

text \<open>\<open>ndTerm\<close> is used for terminals.\<close>

definition ndTerm :: "parser \<Rightarrow> ASTNode \<Rightarrow> result" where
  "ndTerm p self = Inr (self, p)"

text \<open>The statement \<open>return ret, skipToken(p, tid)\<close>.\<close>

definition skipRequired :: "parser \<Rightarrow> LexTokenID \<Rightarrow> ASTNode \<Rightarrow> result" where
  "skipRequired p tid ret =
     (case skipToken p [tid] of
        None \<Rightarrow> Inl Panic
      | Some (Some e, p1) \<Rightarrow> Inl (Err e)
      | Some (None, p1) \<Rightarrow> Inr (ret, p1))"

text \<open>
  The statement \<open>if p.node.Token.ID == tid { skipToken(p, tid) }\<close>, which drops the error
  of \<open>skipToken\<close>; \<open>None\<close> when it panics.
\<close>

definition skipIfCurrent :: "parser \<Rightarrow> LexTokenID \<Rightarrow> parser option" where
  "skipIfCurrent p tid =
     (case nodeTokenID p of
        None \<Rightarrow> None
      | Some i \<Rightarrow>
          if i = tid
          then (case skipToken p [tid] of None \<Rightarrow> None | Some (e, p1) \<Rightarrow> Some p1)
          else Some p)"

text \<open>
  \<open>ndFrom\<close>: the group name becomes a child of the \<open>GROUP\<close> node, which is
  \<open>self.Children[0]\<close>.
\<close>

fun setChildren :: "ASTNode \<Rightarrow> ASTNode list \<Rightarrow> ASTNode" where
  "setChildren (ASTNode n t cs r b nd ld) cs' = ASTNode n t cs' r b nd ld"

definition ndFrom :: "parser \<Rightarrow> ASTNode \<Rightarrow> result" where
  "ndFrom p self =
     (case acceptChild p self TokenGROUP of
        None \<Rightarrow> Inl Panic
      | Some (Some e, p1, self1) \<Rightarrow> Inl (Err e)
      | Some (None, p1, self1) \<Rightarrow>
          (case Children self1 of
             [] \<Rightarrow> Inl Panic
           | c # cs \<Rightarrow>
               (case acceptChild p1 c TokenVALUE of
                  None \<Rightarrow> Inl Panic
                | Some (Some e, p2, c') \<Rightarrow> Inl (Err e)
                | Some (None, p2, c') \<Rightarrow> Inr (setChildren self1 (c' # cs), p2))))"

text \<open>
  \<open>ndFunc\<close>. The source drops the error of the first \<open>acceptChild(p, self, TokenVALUE)\<close>
  inside the \<open>if\<close>.
\<close>

definition ndFunc :: "parser \<Rightarrow> ASTNode \<Rightarrow> result" where
  "ndFunc p self =
     (case acceptChild p self TokenVALUE of
        None \<Rightarrow> Inl Panic
      | Some (Some e, p1, self1) \<Rightarrow> Inl (Err e)
      | Some (None, p1, self1) \<Rightarrow>
          (case skipToken p1 [TokenLPAREN] of
             None \<Rightarrow> Inl Panic
           | Some (Some e, p2) \<Rightarrow> Inl (Err e)
           | Some (None, p2) \<Rightarrow>
               (case nodeTokenID p2 of
                  None \<Rightarrow> Inl Panic
                | Some i \<Rightarrow>
                    if i = TokenVALUE
                    then (case acceptChild p2 self1 TokenVALUE of
                            None \<Rightarrow> Inl Panic
                          | Some (e, p3, self3) \<Rightarrow>
                              (case commaValues p3 self3 of
                                 Inl f \<Rightarrow> Inl f
                               | Inr (self4, p4) \<Rightarrow> skipRequired p4 TokenRPAREN self4))
                    else skipRequired p2 TokenRPAREN self1)))"

text \<open>
  The two blocks of \<open>acceptShowTerm\<close> that parse an \<open>as\<close> and a \<open>format\<close> definition:
  \<^verbatim>\<open>if p.node.Token.ID == tid {
    current := p.node
    acceptChild(p, st, tid)
    if err := acceptChild(p, current, TokenVALUE); err != nil { return err }
  }\<close>
  The first call appends the node \<open>current\<close> to \<open>st\<close>; the second call then changes that
  same node, which is the last child of \<open>st\<close> by now.
\<close>

fun replaceLast :: "ASTNode \<Rightarrow> ASTNode \<Rightarrow> ASTNode" where
  "replaceLast (ASTNode n t cs r b nd ld) c = ASTNode n t (butlast cs @ [c]) r b nd ld"

definition showSuffix :: "parser \<Rightarrow> ASTNode \<Rightarrow> LexTokenID \<Rightarrow> result" where
  "showSuffix p st tid =
     (case nodeTokenID p of
        None \<Rightarrow> Inl Panic
      | Some i \<Rightarrow>
          if i = tid
          then (case node p of
                  None \<Rightarrow> Inl Panic
                | Some current \<Rightarrow>
                    (case acceptChild p st tid of
                       None \<Rightarrow> Inl Panic
                     | Some (e1, p1, st1) \<Rightarrow>
                         (case acceptChild p1 current TokenVALUE of
                            None \<Rightarrow> Inl Panic
                          | Some (Some e, p2, current') \<Rightarrow> Inl (Err e)
                          | Some (None, p2, current') \<Rightarrow>
                              (case e1 of
                                 None \<Rightarrow> Inr (replaceLast st1 current', p2)
                               | Some e \<Rightarrow> Inr (st1, p2)))))
          else Inr (st, p))"

lemma skipRequired_tokens_le:
  "skipRequired p tid r = Inr (a, p') \<Longrightarrow> length (tokens p') \<le> length (tokens p)"
  by (auto simp: skipRequired_def split: option.splits dest!: skipToken_tokens_le)

lemma skipIfCurrent_tokens_le:
  "skipIfCurrent p tid = Some p' \<Longrightarrow> length (tokens p') \<le> length (tokens p)"
  by (auto simp: skipIfCurrent_def split: option.splits if_splits dest!: skipToken_tokens_le)

lemma showSuffix_tokens_le:
  "showSuffix p st tid = Inr (a, p') \<Longrightarrow> length (tokens p') \<le> length (tokens p)"
  by (auto simp: showSuffix_def split: option.splits if_splits dest!: acceptChild_tokens_le)

lemma ndFrom_tokens_le:
  "ndFrom p self = Inr (a, p') \<Longrightarrow> length (tokens p') \<le> length (tokens p)"
  by (auto simp: ndFrom_def split: option.splits if_splits list.splits dest!: acceptChild_tokens_le)

lemma ndFunc_tokens_le:
  "ndFunc p self = Inr (a, p') \<Longrightarrow> length (tokens p') \<le> length (tokens p)"
  by (auto simp: ndFunc_def split: option.splits if_splits sum.splits
      dest!: acceptChild_tokens_le skipToken_tokens_le commaValues_tokens_le skipRequired_tokens_le)

subsection \<open>The main parser function and the denotation functions that call it\<close>

text \<open>
  \<open>run\<close>, the denotation functions and their loops call each other. \<open>run_loop\<close> is the
  \<open>for\<close> loop of \<open>run\<close>, \<open>ndGet_loop\<close> the one of \<open>ndGet\<close> and so on; \<open>acceptShowTerm\<close> is
  the closure of \<open>ndShow\<close>, which changes \<open>self\<close>. \<open>callNullDenotation\<close> and
  \<open>callLeftDenotation\<close> are the calls \<open>n.nullDenotation(p, n)\<close> and
  \<open>n.leftDenotation(p, n, left)\<close> through the function-valued fields.
\<close>

function
  run :: "parser \<Rightarrow> int \<Rightarrow> result" and
  run_loop :: "parser \<Rightarrow> int \<Rightarrow> ASTNode \<Rightarrow> result" and
  callNullDenotation :: "NullDenotation \<Rightarrow> parser \<Rightarrow> ASTNode \<Rightarrow> result" and
  callLeftDenotation :: "LeftDenotation \<Rightarrow> parser \<Rightarrow> ASTNode \<Rightarrow> ASTNode \<Rightarrow> result" and
  ndInner :: "parser \<Rightarrow> ASTNode \<Rightarrow> result" and
  ndPrefix :: "parser \<Rightarrow> ASTNode \<Rightarrow> result" and
  ndGet :: "parser \<Rightarrow> ASTNode \<Rightarrow> result" and
  ndGet_loop :: "parser \<Rightarrow> ASTNode \<Rightarrow> result" and
  ndLookup :: "parser \<Rightarrow> ASTNode \<Rightarrow> result" and
  ndLookup_loop :: "parser \<Rightarrow> ASTNode \<Rightarrow> result" and
  ndTraverse :: "parser \<Rightarrow> ASTNode \<Rightarrow> result" and
  ndTraverse_loop :: "parser \<Rightarrow> ASTNode \<Rightarrow> result" and
  acceptShowTerm :: "parser \<Rightarrow> ASTNode \<Rightarrow> result" and
  ndShow :: "parser \<Rightarrow> ASTNode \<Rightarrow> result" and
  ndShow_loop :: "parser \<Rightarrow> ASTNode \<Rightarrow> result" and
  ndWith :: "parser \<Rightarrow> ASTNode \<Rightarrow> result" and
  ndWithFunc :: "parser \<Rightarrow> ASTNode \<Rightarrow> result" and
  ndWithFunc_loop :: "parser \<Rightarrow> ASTNode \<Rightarrow> result" and
  ndList :: "parser \<Rightarrow> ASTNode \<Rightarrow> result" and
  ndList_loop :: "parser \<Rightarrow> ASTNode \<Rightarrow> result" and
  ldInfix :: "parser \<Rightarrow> ASTNode \<Rightarrow> ASTNode \<Rightarrow> result"
where
  "run p rightBinding =
     (case advance p of
        (Some e, p1) \<Rightarrow> Inl (Err e)
      | (None, p1) \<Rightarrow>
          (case node p of
             None \<Rightarrow> Inl Panic
           | Some n \<Rightarrow>
               (case nullDenotation n of
                  None \<Rightarrow>
                    (case Token n of
                       None \<Rightarrow> Inl Panic
                     | Some t \<Rightarrow>
                         Inl (Err (newParserError p1 ErrImpossibleNullDenotation
                                     (DetailToken t) t)))
                | Some nd \<Rightarrow>
                    (case callNullDenotation nd p1 n of
                       Inl f \<Rightarrow> Inl f
                     | Inr (left, p2) \<Rightarrow> run_loop p2 rightBinding left))))"
| "run_loop p rightBinding left =
     (case node p of
        None \<Rightarrow> Inl Panic
      | Some n \<Rightarrow>
          if rightBinding < binding n
          then (case advance p of
                  (Some e, p1) \<Rightarrow> Inl (Err e)
                | (None, p1) \<Rightarrow>
                    (case leftDenotation n of
                       None \<Rightarrow>
                         (case Token n of
                            None \<Rightarrow> Inl Panic
                          | Some t \<Rightarrow>
                              Inl (Err (newParserError p1 ErrImpossibleLeftDenotation
                                          (DetailToken t) t)))
                     | Some ld \<Rightarrow>
                         (case callLeftDenotation ld p1 n left of
                            Inl f \<Rightarrow> Inl f
                          | Inr (nleft, p2) \<Rightarrow> run_loop p2 rightBinding nleft)))
          else Inr (left, p))"
| "ndInner p self =
     (case run p 0 of
        Inl f \<Rightarrow> Inl f
      | Inr (exp, p1) \<Rightarrow> skipRequired p1 TokenRPAREN exp)"
| "ndPrefix p self =
     (case run p (binding self + 20) of
        Inl f \<Rightarrow> Inl f
      | Inr (val, p1) \<Rightarrow> Inr (appendChild self val, p1))"
| "ndGet p self =
     (case acceptChild p self TokenNODEKIND of
        None \<Rightarrow> Inl Panic
      | Some (Some e, p1, self1) \<Rightarrow> Inl (Err e)
      | Some (None, p1, self1) \<Rightarrow> ndGet_loop p1 self1)"
| "ndGet_loop p self =
     (case nodeTokenID p of
        None \<Rightarrow> Inl Panic
      | Some i \<Rightarrow>
          if i \<noteq> TokenEOF
          then (case run p 0 of
                  Inl f \<Rightarrow> Inl f
                | Inr (exp, p1) \<Rightarrow> ndGet_loop p1 (appendChild self exp))
          else Inr (self, p))"
| "ndLookup p self =
     (case acceptChild p self TokenNODEKIND of
        None \<Rightarrow> Inl Panic
      | Some (Some e, p1, self1) \<Rightarrow> Inl (Err e)
      | Some (None, p1, self1) \<Rightarrow>
          (case acceptChild p1 self1 TokenVALUE of
             None \<Rightarrow> Inl Panic
           | Some (Some e, p2, self2) \<Rightarrow> Inl (Err e)
           | Some (None, p2, self2) \<Rightarrow>
               (case commaValues p2 self2 of
                  Inl f \<Rightarrow> Inl f
                | Inr (self3, p3) \<Rightarrow> ndLookup_loop p3 self3)))"
| "ndLookup_loop p self =
     (case nodeTokenID p of
        None \<Rightarrow> Inl Panic
      | Some i \<Rightarrow>
          if i \<noteq> TokenEOF
          then (case run p 0 of
                  Inl f \<Rightarrow> Inl f
                | Inr (exp, p1) \<Rightarrow> ndLookup_loop p1 (appendChild self exp))
          else Inr (self, p))"
| "ndTraverse p self =
     (case acceptChild p self TokenVALUE of
        None \<Rightarrow> Inl Panic
      | Some (Some e, p1, self1) \<Rightarrow> Inl (Err e)
      | Some (None, p1, self1) \<Rightarrow>
          (case ndTraverse_loop p1 self1 of
             Inl f \<Rightarrow> Inl f
           | Inr (self2, p2) \<Rightarrow>
               (case skipIfCurrent p2 TokenEND of
                  None \<Rightarrow> Inl Panic
                | Some p3 \<Rightarrow> Inr (self2, p3))))"
| "ndTraverse_loop p self =
     (case nodeTokenID p of
        None \<Rightarrow> Inl Panic
      | Some i \<Rightarrow>
          if i \<noteq> TokenEOF \<and> i \<noteq> TokenEND
          then (case run p 0 of
                  Inl f \<Rightarrow> Inl f
                | Inr (exp, p1) \<Rightarrow> ndTraverse_loop p1 (appendChild self exp))
          else Inr (self, p))"
| "acceptShowTerm p self =
     (case astNodeMap TokenSHOWTERM of
        None \<Rightarrow> Inl Panic
      | Some showterm \<Rightarrow>
          (case node p of
             None \<Rightarrow> Inl Panic
           | Some current \<Rightarrow>
               (case Token current of
                  None \<Rightarrow> Inl Panic
                | Some t \<Rightarrow>
                    (case (if ID t = TokenAT
                           then (case run p 0 of
                                   Inl f \<Rightarrow> Inl f
                                 | Inr (exp, p1) \<Rightarrow>
                                     Inr (appendChild
                                            (node_instance p showterm (Token current)) exp, p1))
                           else (case skipToken p [TokenVALUE] of
                                   None \<Rightarrow> Inl Panic
                                 | Some (e, p1) \<Rightarrow>
                                     Inr (node_instance p showterm (Token current), p1)))
                     of
                       Inl f \<Rightarrow> Inl f
                     | Inr (st1, p1) \<Rightarrow>
                         (case showSuffix p1 st1 TokenAS of
                            Inl f \<Rightarrow> Inl f
                          | Inr (st2, p2) \<Rightarrow>
                              (case showSuffix p2 st2 TokenFORMAT of
                                 Inl f \<Rightarrow> Inl f
                               | Inr (st3, p3) \<Rightarrow> Inr (appendChild self st3, p3)))))))"
| "ndShow p self =
     (case nodeTokenID p of
        None \<Rightarrow> Inl Panic
      | Some i \<Rightarrow>
          if i = TokenVALUE \<or> i = TokenAT
          then (case acceptShowTerm p self of
                  Inl f \<Rightarrow> Inl f
                | Inr (self1, p1) \<Rightarrow> ndShow_loop p1 self1)
          else Inr (self, p))"
| "ndShow_loop p self =
     (case skipToken p [TokenCOMMA] of
        None \<Rightarrow> Inl Panic
      | Some (Some e, p1) \<Rightarrow> Inr (self, p1)
      | Some (None, p1) \<Rightarrow>
          (case acceptShowTerm p1 self of
             Inl f \<Rightarrow> Inl f
           | Inr (self1, p2) \<Rightarrow> ndShow_loop p2 self1))"
| "ndWith p self =
     (case nodeTokenID p of
        None \<Rightarrow> Inl Panic
      | Some i \<Rightarrow>
          if i \<noteq> TokenEOF
          then (case run p 0 of
                  Inl f \<Rightarrow> Inl f
                | Inr (exp, p1) \<Rightarrow>
                    (case skipIfCurrent p1 TokenCOMMA of
                       None \<Rightarrow> Inl Panic
                     | Some p2 \<Rightarrow> ndWith p2 (appendChild self exp)))
          else Inr (self, p))"
| "ndWithFunc p self =
     (case skipToken p [TokenLPAREN] of
        None \<Rightarrow> Inl Panic
      | Some (Some e, p1) \<Rightarrow> Inl (Err e)
      | Some (None, p1) \<Rightarrow>
          (case ndWithFunc_loop p1 self of
             Inl f \<Rightarrow> Inl f
           | Inr (self1, p2) \<Rightarrow> skipRequired p2 TokenRPAREN self1))"
| "ndWithFunc_loop p self =
     (case nodeTokenID p of
        None \<Rightarrow> Inl Panic
      | Some i \<Rightarrow>
          if i \<noteq> TokenRPAREN
          then (case run p 0 of
                  Inl f \<Rightarrow> Inl f
                | Inr (exp, p1) \<Rightarrow>
                    (case skipIfCurrent p1 TokenCOMMA of
                       None \<Rightarrow> Inl Panic
                     | Some p2 \<Rightarrow> ndWithFunc_loop p2 (appendChild self exp)))
          else Inr (self, p))"
| "ndList p self =
     (case astNodeMap TokenLIST of
        None \<Rightarrow> Inl Panic
      | Some list \<Rightarrow>
          (case ndList_loop p (node_instance p list (Token self)) of
             Inl f \<Rightarrow> Inl f
           | Inr (st1, p1) \<Rightarrow> skipRequired p1 TokenRBRACK st1))"
| "ndList_loop p st =
     (case nodeTokenID p of
        None \<Rightarrow> Inl Panic
      | Some i \<Rightarrow>
          if i \<noteq> TokenRBRACK
          then (case run p 0 of
                  Inl f \<Rightarrow> Inl f
                | Inr (exp, p1) \<Rightarrow>
                    (case skipIfCurrent p1 TokenCOMMA of
                       None \<Rightarrow> Inl Panic
                     | Some p2 \<Rightarrow> ndList_loop p2 (appendChild st exp)))
          else Inr (st, p))"
| "ldInfix p self left =
     (case run p (binding self) of
        Inl f \<Rightarrow> Inl f
      | Inr (right, p1) \<Rightarrow> Inr (appendChild (appendChild self left) right, p1))"
| "callNullDenotation NdTerm p self = ndTerm p self"
| "callNullDenotation NdInner p self = ndInner p self"
| "callNullDenotation NdPrefix p self = ndPrefix p self"
| "callNullDenotation NdGet p self = ndGet p self"
| "callNullDenotation NdLookup p self = ndLookup p self"
| "callNullDenotation NdFrom p self = ndFrom p self"
| "callNullDenotation NdTraverse p self = ndTraverse p self"
| "callNullDenotation NdFunc p self = ndFunc p self"
| "callNullDenotation NdShow p self = ndShow p self"
| "callNullDenotation NdWith p self = ndWith p self"
| "callNullDenotation NdWithFunc p self = ndWithFunc p self"
| "callNullDenotation NdList p self = ndList p self"
| "callLeftDenotation LdInfix p self left = ldInfix p self left"
  by pat_completeness auto

text \<open>
  Termination: \<open>run\<close> takes a token from the channel before it does anything else, and no
  call puts a token back.
\<close>

abbreviation (input) parser_dom where
  "parser_dom \<equiv> run_run_loop_callNullDenotation_callLeftDenotation_ndInner_ndPrefix_ndGet_ndGet_loop_ndLookup_ndLookup_loop_ndTraverse_ndTraverse_loop_acceptShowTerm_ndShow_ndShow_loop_ndWith_ndWithFunc_ndWithFunc_loop_ndList_ndList_loop_ldInfix_dom"

definition consumes_le :: "result \<Rightarrow> parser \<Rightarrow> bool" where
  "consumes_le r p \<longleftrightarrow> (\<forall>a p'. r = Inr (a, p') \<longrightarrow> length (tokens p') \<le> length (tokens p))"

definition consumes_lt :: "result \<Rightarrow> parser \<Rightarrow> bool" where
  "consumes_lt r p \<longleftrightarrow> (\<forall>a p'. r = Inr (a, p') \<longrightarrow> length (tokens p') < length (tokens p))"

lemma consumes_leD:
  "consumes_le r p \<Longrightarrow> r = Inr (a, p') \<Longrightarrow> length (tokens p') \<le> length (tokens p)"
  by (simp add: consumes_le_def)

lemma consumes_ltD:
  "consumes_lt r p \<Longrightarrow> r = Inr (a, p') \<Longrightarrow> length (tokens p') < length (tokens p)"
  by (simp add: consumes_lt_def)

lemma consume_dom:
  "parser_dom (Inl (Inl (Inl (Inl (p, rb))))) \<Longrightarrow> consumes_lt (run p rb) p"
  "parser_dom (Inl (Inl (Inl (Inr (p, rb, left))))) \<Longrightarrow> consumes_le (run_loop p rb left) p"
  "parser_dom (Inl (Inl (Inr (Inl (nd, p, self))))) \<Longrightarrow> consumes_le (callNullDenotation nd p self) p"
  "parser_dom (Inl (Inl (Inr (Inr (Inl (ld, p, self, left)))))) \<Longrightarrow> consumes_le (callLeftDenotation ld p self left) p"
  "parser_dom (Inl (Inl (Inr (Inr (Inr (p, self)))))) \<Longrightarrow> consumes_le (ndInner p self) p"
  "parser_dom (Inl (Inr (Inl (Inl (p, self))))) \<Longrightarrow> consumes_le (ndPrefix p self) p"
  "parser_dom (Inl (Inr (Inl (Inr (p, self))))) \<Longrightarrow> consumes_le (ndGet p self) p"
  "parser_dom (Inl (Inr (Inr (Inl (p, self))))) \<Longrightarrow> consumes_le (ndGet_loop p self) p"
  "parser_dom (Inl (Inr (Inr (Inr (Inl (p, self)))))) \<Longrightarrow> consumes_le (ndLookup p self) p"
  "parser_dom (Inl (Inr (Inr (Inr (Inr (p, self)))))) \<Longrightarrow> consumes_le (ndLookup_loop p self) p"
  "parser_dom (Inr (Inl (Inl (Inl (p, self))))) \<Longrightarrow> consumes_le (ndTraverse p self) p"
  "parser_dom (Inr (Inl (Inl (Inr (p, self))))) \<Longrightarrow> consumes_le (ndTraverse_loop p self) p"
  "parser_dom (Inr (Inl (Inr (Inl (p, self))))) \<Longrightarrow> consumes_le (acceptShowTerm p self) p"
  "parser_dom (Inr (Inl (Inr (Inr (Inl (p, self)))))) \<Longrightarrow> consumes_le (ndShow p self) p"
  "parser_dom (Inr (Inl (Inr (Inr (Inr (p, self)))))) \<Longrightarrow> consumes_le (ndShow_loop p self) p"
  "parser_dom (Inr (Inr (Inl (Inl (p, self))))) \<Longrightarrow> consumes_le (ndWith p self) p"
  "parser_dom (Inr (Inr (Inl (Inr (Inl (p, self)))))) \<Longrightarrow> consumes_le (ndWithFunc p self) p"
  "parser_dom (Inr (Inr (Inl (Inr (Inr (p, self)))))) \<Longrightarrow> consumes_le (ndWithFunc_loop p self) p"
  "parser_dom (Inr (Inr (Inr (Inl (p, self))))) \<Longrightarrow> consumes_le (ndList p self) p"
  "parser_dom (Inr (Inr (Inr (Inr (Inl (p, self)))))) \<Longrightarrow> consumes_le (ndList_loop p self) p"
  "parser_dom (Inr (Inr (Inr (Inr (Inr (p, self, left)))))) \<Longrightarrow> consumes_le (ldInfix p self left) p"
proof (induct rule: run_run_loop_callNullDenotation_callLeftDenotation_ndInner_ndPrefix_ndGet_ndGet_loop_ndLookup_ndLookup_loop_ndTraverse_ndTraverse_loop_acceptShowTerm_ndShow_ndShow_loop_ndWith_ndWithFunc_ndWithFunc_loop_ndList_ndList_loop_ldInfix.pinduct)
  case (1 p rightBinding)
  note dom = "1.hyps"(1) and IH1 = "1.hyps"(2) and IH2 = "1.hyps"(3)
  show ?case unfolding consumes_lt_def
  proof (intro allI impI)
    fix a p' assume r: "run p rightBinding = Inr (a, p')"
    then obtain p1 n nd left p2 where
      f: "advance p = (None, p1)" "node p = Some n" "nullDenotation n = Some nd"
         "callNullDenotation nd p1 n = Inr (left, p2)"
         "run_loop p2 rightBinding left = Inr (a, p')"
      by (auto simp: run.psimps[OF dom] split: prod.split_asm option.split_asm sum.split_asm if_split_asm)
    from consumes_leD[OF IH1[OF f(1)[symmetric] refl f(2) f(3)] f(4)]
      consumes_leD[OF IH2[OF f(1)[symmetric] refl f(2) f(3) f(4) refl] f(5)]
      advance_tokens[OF f(1)]
    show "length (tokens p') < length (tokens p)" by simp
  qed
next
  case (2 p rightBinding left)
  note dom = "2.hyps"(1) and IH1 = "2.hyps"(2) and IH2 = "2.hyps"(3)
  show ?case unfolding consumes_le_def
  proof (intro allI impI)
    fix a p' assume r: "run_loop p rightBinding left = Inr (a, p')"
    then consider (stop) "p' = p"
      | (step) n p1 ld nleft p2 where "node p = Some n" "rightBinding < binding n"
          "advance p = (None, p1)" "leftDenotation n = Some ld"
          "callLeftDenotation ld p1 n left = Inr (nleft, p2)"
          "run_loop p2 rightBinding nleft = Inr (a, p')"
      by (auto simp: run_loop.psimps[OF dom] split: prod.split_asm option.split_asm sum.split_asm if_split_asm)
    then show "length (tokens p') \<le> length (tokens p)"
    proof cases
      case stop then show ?thesis by simp
    next
      case step
      from advance_tokens[OF step(3)]
        consumes_leD[OF IH1[OF step(1) step(2) step(3)[symmetric] refl step(4)] step(5)]
        consumes_leD[OF IH2[OF step(1) step(2) step(3)[symmetric] refl step(4) step(5) refl]
          step(6)]
      show ?thesis by simp
    qed
  qed
next
  case (3 p self)
  note dom = "3.hyps"(1) and IH1 = "3.hyps"(2)
  show ?case unfolding consumes_le_def
  proof (intro allI impI)
    fix a p' assume r: "ndInner p self = Inr (a, p')"
    then obtain exp p1 where
      f: "run p 0 = Inr (exp, p1)" "skipRequired p1 TokenRPAREN exp = Inr (a, p')"
      by (auto simp: ndInner.psimps[OF dom] split: prod.split_asm option.split_asm sum.split_asm if_split_asm)
    from consumes_ltD[OF IH1 f(1)] skipRequired_tokens_le[OF f(2)]
    show "length (tokens p') \<le> length (tokens p)" by simp
  qed
next
  case (4 p self)
  note dom = "4.hyps"(1) and IH1 = "4.hyps"(2)
  show ?case unfolding consumes_le_def
  proof (intro allI impI)
    fix a p' assume r: "ndPrefix p self = Inr (a, p')"
    then obtain val where f: "run p (binding self + 20) = Inr (val, p')"
      by (auto simp: ndPrefix.psimps[OF dom] split: prod.split_asm option.split_asm sum.split_asm if_split_asm)
    from consumes_ltD[OF IH1 f]
    show "length (tokens p') \<le> length (tokens p)" by simp
  qed
next
  case (5 p self)
  note dom = "5.hyps"(1) and IH1 = "5.hyps"(2)
  show ?case unfolding consumes_le_def
  proof (intro allI impI)
    fix a p' assume r: "ndGet p self = Inr (a, p')"
    then obtain p1 self1 where
      f: "acceptChild p self TokenNODEKIND = Some (None, p1, self1)"
         "ndGet_loop p1 self1 = Inr (a, p')"
      by (auto simp: ndGet.psimps[OF dom] split: prod.split_asm option.split_asm sum.split_asm if_split_asm)
    from acceptChild_tokens_le[OF f(1)] consumes_leD[OF IH1[OF f(1) refl refl refl] f(2)]
    show "length (tokens p') \<le> length (tokens p)" by simp
  qed
next
  case (6 p self)
  note dom = "6.hyps"(1) and IH1 = "6.hyps"(2) and IH2 = "6.hyps"(3)
  show ?case unfolding consumes_le_def
  proof (intro allI impI)
    fix a p' assume r: "ndGet_loop p self = Inr (a, p')"
    then consider (stop) "p' = p"
      | (step) i exp p1 where "nodeTokenID p = Some i" "i \<noteq> TokenEOF"
          "run p 0 = Inr (exp, p1)" "ndGet_loop p1 (appendChild self exp) = Inr (a, p')"
      by (auto simp: ndGet_loop.psimps[OF dom] split: prod.split_asm option.split_asm sum.split_asm if_split_asm)
    then show "length (tokens p') \<le> length (tokens p)"
    proof cases
      case stop then show ?thesis by simp
    next
      case step
      from consumes_ltD[OF IH1[OF step(1) step(2)] step(3)]
        consumes_leD[OF IH2[OF step(1) step(2) step(3) refl] step(4)]
      show ?thesis by simp
    qed
  qed
next
  case (7 p self)
  note dom = "7.hyps"(1) and IH1 = "7.hyps"(2)
  show ?case unfolding consumes_le_def
  proof (intro allI impI)
    fix a p' assume r: "ndLookup p self = Inr (a, p')"
    then obtain p1 self1 p2 self2 self3 p3 where
      f: "acceptChild p self TokenNODEKIND = Some (None, p1, self1)"
         "acceptChild p1 self1 TokenVALUE = Some (None, p2, self2)"
         "commaValues p2 self2 = Inr (self3, p3)"
         "ndLookup_loop p3 self3 = Inr (a, p')"
      by (auto simp: ndLookup.psimps[OF dom] split: prod.split_asm option.split_asm sum.split_asm if_split_asm)
    from acceptChild_tokens_le[OF f(1)] acceptChild_tokens_le[OF f(2)]
      commaValues_tokens_le[OF f(3)]
      consumes_leD[OF IH1[OF f(1) refl refl refl f(2) refl refl refl f(3) refl] f(4)]
    show "length (tokens p') \<le> length (tokens p)" by simp
  qed
next
  case (8 p self)
  note dom = "8.hyps"(1) and IH1 = "8.hyps"(2) and IH2 = "8.hyps"(3)
  show ?case unfolding consumes_le_def
  proof (intro allI impI)
    fix a p' assume r: "ndLookup_loop p self = Inr (a, p')"
    then consider (stop) "p' = p"
      | (step) i exp p1 where "nodeTokenID p = Some i" "i \<noteq> TokenEOF"
          "run p 0 = Inr (exp, p1)" "ndLookup_loop p1 (appendChild self exp) = Inr (a, p')"
      by (auto simp: ndLookup_loop.psimps[OF dom] split: prod.split_asm option.split_asm sum.split_asm if_split_asm)
    then show "length (tokens p') \<le> length (tokens p)"
    proof cases
      case stop then show ?thesis by simp
    next
      case step
      from consumes_ltD[OF IH1[OF step(1) step(2)] step(3)]
        consumes_leD[OF IH2[OF step(1) step(2) step(3) refl] step(4)]
      show ?thesis by simp
    qed
  qed
next
  case (9 p self)
  note dom = "9.hyps"(1) and IH1 = "9.hyps"(2)
  show ?case unfolding consumes_le_def
  proof (intro allI impI)
    fix a p' assume r: "ndTraverse p self = Inr (a, p')"
    then obtain p1 self1 p2 where
      f: "acceptChild p self TokenVALUE = Some (None, p1, self1)"
         "ndTraverse_loop p1 self1 = Inr (a, p2)"
         "skipIfCurrent p2 TokenEND = Some p'"
      by (auto simp: ndTraverse.psimps[OF dom] split: prod.split_asm option.split_asm sum.split_asm if_split_asm)
    from acceptChild_tokens_le[OF f(1)] consumes_leD[OF IH1[OF f(1) refl refl refl] f(2)]
      skipIfCurrent_tokens_le[OF f(3)]
    show "length (tokens p') \<le> length (tokens p)" by simp
  qed
next
  case (10 p self)
  note dom = "10.hyps"(1) and IH1 = "10.hyps"(2) and IH2 = "10.hyps"(3)
  show ?case unfolding consumes_le_def
  proof (intro allI impI)
    fix a p' assume r: "ndTraverse_loop p self = Inr (a, p')"
    then consider (stop) "p' = p"
      | (step) i exp p1 where "nodeTokenID p = Some i" "i \<noteq> TokenEOF \<and> i \<noteq> TokenEND"
          "run p 0 = Inr (exp, p1)" "ndTraverse_loop p1 (appendChild self exp) = Inr (a, p')"
      by (auto simp: ndTraverse_loop.psimps[OF dom] split: prod.split_asm option.split_asm sum.split_asm if_split_asm)
    then show "length (tokens p') \<le> length (tokens p)"
    proof cases
      case stop then show ?thesis by simp
    next
      case step
      from consumes_ltD[OF IH1[OF step(1) step(2)] step(3)]
        consumes_leD[OF IH2[OF step(1) step(2) step(3) refl] step(4)]
      show ?thesis by simp
    qed
  qed
next
  case (11 p self)
  note dom = "11.hyps"(1) and IH1 = "11.hyps"(2)
  show ?case unfolding consumes_le_def
  proof (intro allI impI)
    fix a p' assume r: "acceptShowTerm p self = Inr (a, p')"
    obtain showterm where s: "astNodeMap TokenSHOWTERM = Some showterm" by simp
    from r obtain current t where c: "node p = Some current" "Token current = Some t"
      by (auto simp: acceptShowTerm.psimps[OF dom] split: option.split_asm)
    have "\<exists>p1 st1 st2 p2 st3. length (tokens p1) \<le> length (tokens p) \<and>
            showSuffix p1 st1 TokenAS = Inr (st2, p2) \<and>
            showSuffix p2 st2 TokenFORMAT = Inr (st3, p')"
    proof (cases "ID t = TokenAT")
      case True
      with r c obtain exp p1 st1 st2 p2 st3 where
        g: "run p 0 = Inr (exp, p1)" "showSuffix p1 st1 TokenAS = Inr (st2, p2)"
           "showSuffix p2 st2 TokenFORMAT = Inr (st3, p')"
        by (auto simp: acceptShowTerm.psimps[OF dom]
            split: option.split_asm sum.split_asm prod.split_asm)
      from consumes_ltD[OF IH1[OF s c(1) c(2) True] g(1)] g(2) g(3)
      show ?thesis by (intro exI[of _ p1] exI[of _ st1] exI[of _ st2] exI[of _ p2] exI[of _ st3]) simp
    next
      case False
      with r c obtain e p1 st1 st2 p2 st3 where
        g: "skipToken p [TokenVALUE] = Some (e, p1)" "showSuffix p1 st1 TokenAS = Inr (st2, p2)"
           "showSuffix p2 st2 TokenFORMAT = Inr (st3, p')"
        by (auto simp: acceptShowTerm.psimps[OF dom]
            split: option.split_asm sum.split_asm prod.split_asm)
      from skipToken_tokens_le[OF g(1)] g(2) g(3)
      show ?thesis by (intro exI[of _ p1] exI[of _ st1] exI[of _ st2] exI[of _ p2] exI[of _ st3]) simp
    qed
    then obtain p1 st1 st2 p2 st3 where
      h: "length (tokens p1) \<le> length (tokens p)" "showSuffix p1 st1 TokenAS = Inr (st2, p2)"
         "showSuffix p2 st2 TokenFORMAT = Inr (st3, p')"
      by blast
    from h(1) showSuffix_tokens_le[OF h(2)] showSuffix_tokens_le[OF h(3)]
    show "length (tokens p') \<le> length (tokens p)" by simp
  qed
next
  case (12 p self)
  note dom = "12.hyps"(1) and IH1 = "12.hyps"(2) and IH2 = "12.hyps"(3)
  show ?case unfolding consumes_le_def
  proof (intro allI impI)
    fix a p' assume r: "ndShow p self = Inr (a, p')"
    then consider (stop) "p' = p"
      | (step) i self1 p1 where "nodeTokenID p = Some i" "i = TokenVALUE \<or> i = TokenAT"
          "acceptShowTerm p self = Inr (self1, p1)" "ndShow_loop p1 self1 = Inr (a, p')"
      by (auto simp: ndShow.psimps[OF dom] split: prod.split_asm option.split_asm sum.split_asm if_split_asm)
    then show "length (tokens p') \<le> length (tokens p)"
    proof cases
      case stop then show ?thesis by simp
    next
      case step
      from consumes_leD[OF IH1[OF step(1) step(2)] step(3)]
        consumes_leD[OF IH2[OF step(1) step(2) step(3) refl] step(4)]
      show ?thesis by simp
    qed
  qed
next
  case (13 p self)
  note dom = "13.hyps"(1) and IH1 = "13.hyps"(2) and IH2 = "13.hyps"(3)
  show ?case unfolding consumes_le_def
  proof (intro allI impI)
    fix a p' assume r: "ndShow_loop p self = Inr (a, p')"
    then consider (stop) e where "skipToken p [TokenCOMMA] = Some (Some e, p')"
      | (step) p1 self1 p2 where "skipToken p [TokenCOMMA] = Some (None, p1)"
          "acceptShowTerm p1 self = Inr (self1, p2)" "ndShow_loop p2 self1 = Inr (a, p')"
      by (auto simp: ndShow_loop.psimps[OF dom] split: prod.split_asm option.split_asm sum.split_asm if_split_asm)
    then show "length (tokens p') \<le> length (tokens p)"
    proof cases
      case stop from skipToken_tokens_le[OF stop] show ?thesis .
    next
      case step
      from skipToken_tokens_le[OF step(1)]
        consumes_leD[OF IH1[OF step(1) refl refl] step(2)]
        consumes_leD[OF IH2[OF step(1) refl refl step(2) refl] step(3)]
      show ?thesis by simp
    qed
  qed
next
  case (14 p self)
  note dom = "14.hyps"(1) and IH1 = "14.hyps"(2) and IH2 = "14.hyps"(3)
  show ?case unfolding consumes_le_def
  proof (intro allI impI)
    fix a p' assume r: "ndWith p self = Inr (a, p')"
    then consider (stop) "p' = p"
      | (step) i exp p1 p2 where "nodeTokenID p = Some i" "i \<noteq> TokenEOF"
          "run p 0 = Inr (exp, p1)" "skipIfCurrent p1 TokenCOMMA = Some p2"
          "ndWith p2 (appendChild self exp) = Inr (a, p')"
      by (auto simp: ndWith.psimps[OF dom] split: prod.split_asm option.split_asm sum.split_asm if_split_asm)
    then show "length (tokens p') \<le> length (tokens p)"
    proof cases
      case stop then show ?thesis by simp
    next
      case step
      from consumes_ltD[OF IH1[OF step(1) step(2)] step(3)]
        skipIfCurrent_tokens_le[OF step(4)]
        consumes_leD[OF IH2[OF step(1) step(2) step(3) refl step(4)] step(5)]
      show ?thesis by simp
    qed
  qed
next
  case (15 p self)
  note dom = "15.hyps"(1) and IH1 = "15.hyps"(2)
  show ?case unfolding consumes_le_def
  proof (intro allI impI)
    fix a p' assume r: "ndWithFunc p self = Inr (a, p')"
    then obtain p1 self1 p2 where
      f: "skipToken p [TokenLPAREN] = Some (None, p1)"
         "ndWithFunc_loop p1 self = Inr (self1, p2)"
         "skipRequired p2 TokenRPAREN self1 = Inr (a, p')"
      by (auto simp: ndWithFunc.psimps[OF dom] split: prod.split_asm option.split_asm sum.split_asm if_split_asm)
    from skipToken_tokens_le[OF f(1)] consumes_leD[OF IH1[OF f(1) refl refl] f(2)]
      skipRequired_tokens_le[OF f(3)]
    show "length (tokens p') \<le> length (tokens p)" by simp
  qed
next
  case (16 p self)
  note dom = "16.hyps"(1) and IH1 = "16.hyps"(2) and IH2 = "16.hyps"(3)
  show ?case unfolding consumes_le_def
  proof (intro allI impI)
    fix a p' assume r: "ndWithFunc_loop p self = Inr (a, p')"
    then consider (stop) "p' = p"
      | (step) i exp p1 p2 where "nodeTokenID p = Some i" "i \<noteq> TokenRPAREN"
          "run p 0 = Inr (exp, p1)" "skipIfCurrent p1 TokenCOMMA = Some p2"
          "ndWithFunc_loop p2 (appendChild self exp) = Inr (a, p')"
      by (auto simp: ndWithFunc_loop.psimps[OF dom] split: prod.split_asm option.split_asm sum.split_asm if_split_asm)
    then show "length (tokens p') \<le> length (tokens p)"
    proof cases
      case stop then show ?thesis by simp
    next
      case step
      from consumes_ltD[OF IH1[OF step(1) step(2)] step(3)]
        skipIfCurrent_tokens_le[OF step(4)]
        consumes_leD[OF IH2[OF step(1) step(2) step(3) refl step(4)] step(5)]
      show ?thesis by simp
    qed
  qed
next
  case (17 p self)
  note dom = "17.hyps"(1) and IH1 = "17.hyps"(2)
  show ?case unfolding consumes_le_def
  proof (intro allI impI)
    fix a p' assume r: "ndList p self = Inr (a, p')"
    then obtain list st1 p1 where
      f: "astNodeMap TokenLIST = Some list"
         "ndList_loop p (node_instance p list (Token self)) = Inr (st1, p1)"
         "skipRequired p1 TokenRBRACK st1 = Inr (a, p')"
      by (auto simp: ndList.psimps[OF dom] split: prod.split_asm option.split_asm sum.split_asm if_split_asm)
    from consumes_leD[OF IH1[OF f(1)] f(2)] skipRequired_tokens_le[OF f(3)]
    show "length (tokens p') \<le> length (tokens p)" by simp
  qed
next
  case (18 p st)
  note dom = "18.hyps"(1) and IH1 = "18.hyps"(2) and IH2 = "18.hyps"(3)
  show ?case unfolding consumes_le_def
  proof (intro allI impI)
    fix a p' assume r: "ndList_loop p st = Inr (a, p')"
    then consider (stop) "p' = p"
      | (step) i exp p1 p2 where "nodeTokenID p = Some i" "i \<noteq> TokenRBRACK"
          "run p 0 = Inr (exp, p1)" "skipIfCurrent p1 TokenCOMMA = Some p2"
          "ndList_loop p2 (appendChild st exp) = Inr (a, p')"
      by (auto simp: ndList_loop.psimps[OF dom] split: prod.split_asm option.split_asm sum.split_asm if_split_asm)
    then show "length (tokens p') \<le> length (tokens p)"
    proof cases
      case stop then show ?thesis by simp
    next
      case step
      from consumes_ltD[OF IH1[OF step(1) step(2)] step(3)]
        skipIfCurrent_tokens_le[OF step(4)]
        consumes_leD[OF IH2[OF step(1) step(2) step(3) refl step(4)] step(5)]
      show ?thesis by simp
    qed
  qed
next
  case (19 p self left)
  note dom = "19.hyps"(1) and IH1 = "19.hyps"(2)
  show ?case unfolding consumes_le_def
  proof (intro allI impI)
    fix a p' assume r: "ldInfix p self left = Inr (a, p')"
    then obtain right where f: "run p (binding self) = Inr (right, p')"
      by (auto simp: ldInfix.psimps[OF dom] split: prod.split_asm option.split_asm sum.split_asm if_split_asm)
    from consumes_ltD[OF IH1 f]
    show "length (tokens p') \<le> length (tokens p)" by simp
  qed
next
  case (20 p self)
  then show ?case
    by (simp add: callNullDenotation.psimps consumes_le_def ndTerm_def)
next
  case (21 p self)
  then show ?case
    by (simp add: callNullDenotation.psimps)
next
  case (22 p self)
  then show ?case
    by (simp add: callNullDenotation.psimps)
next
  case (23 p self)
  then show ?case
    by (simp add: callNullDenotation.psimps)
next
  case (24 p self)
  then show ?case
    by (simp add: callNullDenotation.psimps)
next
  case (25 p self)
  then show ?case
    by (auto simp add: callNullDenotation.psimps consumes_le_def dest: ndFrom_tokens_le)
next
  case (26 p self)
  then show ?case
    by (simp add: callNullDenotation.psimps)
next
  case (27 p self)
  then show ?case
    by (auto simp add: callNullDenotation.psimps consumes_le_def dest: ndFunc_tokens_le)
next
  case (28 p self)
  then show ?case
    by (simp add: callNullDenotation.psimps)
next
  case (29 p self)
  then show ?case
    by (simp add: callNullDenotation.psimps)
next
  case (30 p self)
  then show ?case
    by (simp add: callNullDenotation.psimps)
next
  case (31 p self)
  then show ?case
    by (simp add: callNullDenotation.psimps)
next
  case (32 p self left)
  then show ?case
    by (simp add: callLeftDenotation.psimps)
qed

definition parser_measure where
  "parser_measure x =
     (case x of
        Inl (Inl (Inl (Inl (p, rb)))) \<Rightarrow> (length (tokens p), 0)
      | Inl (Inl (Inl (Inr (p, rb, left)))) \<Rightarrow> (length (tokens p), 0)
      | Inl (Inl (Inr (Inl (nd, p, self)))) \<Rightarrow> (length (tokens p), 3)
      | Inl (Inl (Inr (Inr (Inl (ld, p, self, left))))) \<Rightarrow> (length (tokens p), 3)
      | Inl (Inl (Inr (Inr (Inr (p, self))))) \<Rightarrow> (length (tokens p), 1)
      | Inl (Inr (Inl (Inl (p, self)))) \<Rightarrow> (length (tokens p), 1)
      | Inl (Inr (Inl (Inr (p, self)))) \<Rightarrow> (length (tokens p), 2)
      | Inl (Inr (Inr (Inl (p, self)))) \<Rightarrow> (length (tokens p), 1)
      | Inl (Inr (Inr (Inr (Inl (p, self))))) \<Rightarrow> (length (tokens p), 2)
      | Inl (Inr (Inr (Inr (Inr (p, self))))) \<Rightarrow> (length (tokens p), 1)
      | Inr (Inl (Inl (Inl (p, self)))) \<Rightarrow> (length (tokens p), 2)
      | Inr (Inl (Inl (Inr (p, self)))) \<Rightarrow> (length (tokens p), 1)
      | Inr (Inl (Inr (Inl (p, self)))) \<Rightarrow> (length (tokens p), 1)
      | Inr (Inl (Inr (Inr (Inl (p, self))))) \<Rightarrow> (length (tokens p), 2)
      | Inr (Inl (Inr (Inr (Inr (p, self))))) \<Rightarrow> (length (tokens p), 1)
      | Inr (Inr (Inl (Inl (p, self)))) \<Rightarrow> (length (tokens p), 1)
      | Inr (Inr (Inl (Inr (Inl (p, self))))) \<Rightarrow> (length (tokens p), 2)
      | Inr (Inr (Inl (Inr (Inr (p, self))))) \<Rightarrow> (length (tokens p), 1)
      | Inr (Inr (Inr (Inl (p, self)))) \<Rightarrow> (length (tokens p), 2)
      | Inr (Inr (Inr (Inr (Inl (p, self))))) \<Rightarrow> (length (tokens p), 1)
      | Inr (Inr (Inr (Inr (Inr (p, self, left))))) \<Rightarrow> (length (tokens p), 1))"

lemma advance_tokens_sym:
  "(None, p') = advance p \<Longrightarrow> length (tokens p') < length (tokens p)"
  by (rule advance_tokens) simp

lemma run_consumes:
  "run p rb = Inr (a, p') \<Longrightarrow> parser_dom (Inl (Inl (Inl (Inl (p, rb))))) \<Longrightarrow>
     length (tokens p') < length (tokens p)"
  using consume_dom(1)[of p rb] by (simp add: consumes_lt_def)

lemma callNullDenotation_consumes:
  "callNullDenotation nd p self = Inr (a, p') \<Longrightarrow>
     parser_dom (Inl (Inl (Inr (Inl (nd, p, self))))) \<Longrightarrow>
     length (tokens p') \<le> length (tokens p)"
  using consume_dom(3)[of nd p self] by (simp add: consumes_le_def)

lemma callLeftDenotation_consumes:
  "callLeftDenotation ld p self left = Inr (a, p') \<Longrightarrow>
     parser_dom (Inl (Inl (Inr (Inr (Inl (ld, p, self, left)))))) \<Longrightarrow>
     length (tokens p') \<le> length (tokens p)"
  using consume_dom(4)[of ld p self left] by (simp add: consumes_le_def)

lemma acceptShowTerm_consumes:
  "acceptShowTerm p self = Inr (a, p') \<Longrightarrow>
     parser_dom (Inr (Inl (Inr (Inl (p, self))))) \<Longrightarrow>
     length (tokens p') \<le> length (tokens p)"
  using consume_dom(13)[of p self] by (simp add: consumes_le_def)

termination run
  apply (relation "inv_image (less_than <*lex*> less_than) parser_measure")
   apply (intro wf_inv_image wf_lex_prod wf_less_than)
  apply (auto simp add: parser_measure_def
      dest!: advance_tokens_sym run_consumes callNullDenotation_consumes
        callLeftDenotation_consumes acceptShowTerm_consumes acceptChild_tokens
        skipToken_tokens commaValues_tokens_le skipIfCurrent_tokens_le)
  done

declare run.simps [simp del] run_loop.simps [simp del] callNullDenotation.simps [simp del]
  callLeftDenotation.simps [simp del] ndInner.simps [simp del] ndPrefix.simps [simp del]
  ndGet.simps [simp del] ndGet_loop.simps [simp del] ndLookup.simps [simp del]
  ndLookup_loop.simps [simp del] ndTraverse.simps [simp del] ndTraverse_loop.simps [simp del]
  acceptShowTerm.simps [simp del] ndShow.simps [simp del] ndShow_loop.simps [simp del]
  ndWith.simps [simp del] ndWithFunc.simps [simp del] ndWithFunc_loop.simps [simp del]
  ndList.simps [simp del] ndList_loop.simps [simp del] ldInfix.simps [simp del]

subsection \<open>Entry points\<close>

text \<open>
  Modelled from the spec: the lexer (\<open>Lex\<close>) is not among the sources. By the
  specification it delivers a sequence of tokens with the fields id, value, line and
  column, ended by an \<open>EOF\<close> token or by a single error token, which the parser consumes
  as an opaque sequence. \<open>ParseWithRuntime\<close> and \<open>Parse\<close> therefore take, in place of the
  input string, the sequence of tokens that \<open>Lex(name, input)\<close> sends for it.
\<close>

definition ParseWithRuntime ::
  "string \<Rightarrow> LexToken list \<Rightarrow> (ASTNode \<Rightarrow> Runtime) option \<Rightarrow> Failure + ASTNode" where
  "ParseWithRuntime nm input provider =
     (case parser_next \<lparr>name = nm, node = None, tokens = input, rp = provider\<rparr> of
        (Inl e, p) \<Rightarrow> Inl (Err e)
      | (Inr n, p) \<Rightarrow>
          (case run (p\<lparr>node := Some n\<rparr>) 0 of
             Inl f \<Rightarrow> Inl f
           | Inr (root, p') \<Rightarrow> Inr root))"

definition Parse :: "string \<Rightarrow> LexToken list \<Rightarrow> Failure + ASTNode" where
  "Parse nm input = ParseWithRuntime nm input None"

section \<open>Notions used by the properties\<close>

text \<open>
  A token with id \<open>i\<close> and value \<open>v\<close> at \<open>(position, line, column)\<close>. The parser never
  reads the three numbers; they only travel with the token.
\<close>

definition token :: "LexTokenID \<Rightarrow> string \<Rightarrow> nat \<times> nat \<times> nat \<Rightarrow> LexToken" where
  "token i v at = \<lparr>ID = i, Pos = fst at, Val = v, Lline = fst (snd at), Lpos = snd (snd at)\<rparr>"

text \<open>
  The shape of a tree: the name of each node, the value of its token and the shapes of
  its children, in order. Two trees are structurally equal up to the other fields of
  their tokens when they have the same shape.
\<close>

datatype Shape = Shape string "string option" "Shape list"

fun shape :: "ASTNode \<Rightarrow> Shape" where
  "shape (ASTNode n t cs r b nd ld) = Shape n (map_option Val t) (map shape cs)"

text \<open>The token ids of all nodes of a tree, parents first.\<close>

fun treeTokenIDs :: "ASTNode \<Rightarrow> LexTokenID option list" where
  "treeTokenIDs (ASTNode n t cs r b nd ld) = map_option ID t # concat (map treeTokenIDs cs)"

definition childNames :: "ASTNode \<Rightarrow> string list" where
  "childNames n = map Name (Children n)"

definition childTokenIDs :: "ASTNode \<Rightarrow> LexTokenID option list" where
  "childTokenIDs n = map (\<lambda>c. map_option ID (Token c)) (Children n)"

text \<open>The kind of a returned error; \<open>None\<close> for a panic.\<close>

fun failureType :: "Failure \<Rightarrow> ErrorType option" where
  "failureType Panic = None"
| "failureType (Err e) = Some (Type e)"

text \<open>
  The table of binding powers as the specification gives it:
  \<open>NOT\<close> 20, \<open>OR\<close> 30, \<open>AND\<close> 40, comparisons and set predicates 60, \<open>PLUS\<close> and \<open>MINUS\<close>
  110, \<open>TIMES\<close>, \<open>DIV\<close>, \<open>MODINT\<close> and \<open>DIVINT\<close> 120, \<open>LPAREN\<close> and \<open>LBRACK\<close> 150,
  everything else 0.
\<close>

definition bindingPower :: "LexTokenID \<Rightarrow> int" where
  "bindingPower t =
     (if t = TokenNOT then 20
      else if t = TokenOR then 30
      else if t = TokenAND then 40
      else if t \<in> set [TokenGEQ, TokenLEQ, TokenNEQ, TokenEQ, TokenGT, TokenLT, TokenLIKE,
                       TokenIN, TokenCONTAINS, TokenBEGINSWITH, TokenENDSWITH,
                       TokenCONTAINSNOT, TokenNOTIN] then 60
      else if t \<in> set [TokenPLUS, TokenMINUS] then 110
      else if t \<in> set [TokenTIMES, TokenDIV, TokenMODINT, TokenDIVINT] then 120
      else if t \<in> set [TokenLPAREN, TokenLBRACK] then 150
      else 0)"

text \<open>What \<open>astNodeMap\<close> says about a token id.\<close>

definition isTerminal :: "LexTokenID \<Rightarrow> bool" where
  "isTerminal t = (case astNodeMap t of None \<Rightarrow> False | Some n \<Rightarrow> nullDenotation n = Some NdTerm)"

definition isInfix :: "LexTokenID \<Rightarrow> bool" where
  "isInfix t = (case astNodeMap t of None \<Rightarrow> False | Some n \<Rightarrow> leftDenotation n = Some LdInfix)"

definition tokenBinding :: "LexTokenID \<Rightarrow> int" where
  "tokenBinding t = (case astNodeMap t of None \<Rightarrow> 0 | Some n \<Rightarrow> binding n)"

definition tokenName :: "LexTokenID \<Rightarrow> string" where
  "tokenName t = (case astNodeMap t of None \<Rightarrow> [] | Some n \<Rightarrow> Name n)"

section \<open>Properties of the parser\<close>

lemmas parser_defs =
  ParseWithRuntime_def Parse_def parser_next_def advance_def nodeTokenID_def skipToken_def
  acceptChild_def node_instance_def newParserError_def proto_def ndTerm_def ndFrom_def
  ndFunc_def skipRequired_def skipIfCurrent_def showSuffix_def token_def

lemmas parser_simps =
  run.simps run_loop.simps callNullDenotation.simps callLeftDenotation.simps ndInner.simps
  ndPrefix.simps ndGet.simps ndGet_loop.simps ndLookup.simps ndLookup_loop.simps
  ndTraverse.simps ndTraverse_loop.simps acceptShowTerm.simps ndShow.simps ndShow_loop.simps
  ndWith.simps ndWithFunc.simps ndWithFunc_loop.simps ndList.simps ndList_loop.simps
  ldInfix.simps commaValues.simps

text \<open>
  C7: the table \<open>astNodeMap\<close> gives every token id it holds exactly the binding power of
  the specification's table: \<open>NOT\<close> 20, \<open>OR\<close> 30, \<open>AND\<close> 40, the thirteen comparisons and
  set predicates 60, \<open>PLUS\<close> and \<open>MINUS\<close> 110, \<open>TIMES\<close>, \<open>DIV\<close>, \<open>MODINT\<close> and \<open>DIVINT\<close>
  120, \<open>LPAREN\<close> and \<open>LBRACK\<close> 150, and 0 for every other entry. Only the ids
  \<open>TokenError\<close> and \<open>TokenGeneral\<close> have no entry.
\<close>

theorem astNodeMap_binding_powers:
  "map_option binding (astNodeMap t) =
     (if t = TokenError \<or> t = TokenGeneral then None else Some (bindingPower t))"
  by (cases t) (simp_all add: proto_def bindingPower_def)

text \<open>
  C1 as stated fails: for the tokens of \<open>get Song where name = "Aria1"\<close> the children of
  the root are named \<open>VALUE\<close> and \<open>WHERE\<close>; the first child is not named \<open>NODEKIND\<close>,
  because \<open>astNodeMap\<close> gives the prototype of \<open>TokenNODEKIND\<close> the name \<open>NodeVALUE\<close>.
\<close>

theorem parse_get_where_nodekind_counterexample:
  "map_sum failureType childNames
     (Parse ''demo''
        [token TokenGET ''get'' (0, 1, 1), token TokenNODEKIND ''Song'' (4, 1, 5),
         token TokenWHERE ''where'' (9, 1, 10), token TokenVALUE ''name'' (15, 1, 16),
         token TokenEQ ''='' (20, 1, 21), token TokenVALUE ''Aria1'' (22, 1, 23),
         token TokenEOF [] (29, 1, 30)])
     = Inr [NodeVALUE, NodeWHERE] \<and> NodeVALUE \<noteq> NodeNODEKIND"
  by (simp add: parser_defs parser_simps childNames_def NodeVALUE_def NodeNODEKIND_def NodeWHERE_def)

text \<open>
  C1, amended: for the tokens of \<open>get Song where name = "Aria1"\<close>, whatever their
  positions, \<open>Parse\<close> succeeds and returns a root named \<open>GET\<close> whose first child is a node
  named \<open>VALUE\<close> that carries the \<open>NODEKIND\<close> token with value \<open>Song\<close> and has no children,
  and whose second child is a node named \<open>WHERE\<close> with exactly one child
  \<open>(EQ (VALUE "name") (VALUE "Aria1"))\<close>, the two children of \<open>EQ\<close> in left-then-right
  order.
\<close>

theorem parse_get_where:
  "map_sum failureType shape
     (Parse nm
        [token TokenGET v1 a1, token TokenNODEKIND ''Song'' a2, token TokenWHERE v3 a3,
         token TokenVALUE ''name'' a4, token TokenEQ v5 a5, token TokenVALUE ''Aria1'' a6,
         token TokenEOF v7 a7])
     = Inr (Shape NodeGET (Some v1)
              [Shape NodeVALUE (Some ''Song'') [],
               Shape NodeWHERE (Some v3)
                 [Shape NodeEQ (Some v5)
                    [Shape NodeVALUE (Some ''name'') [], Shape NodeVALUE (Some ''Aria1'') []]]])
     \<and> map_sum failureType childTokenIDs
     (Parse nm
        [token TokenGET v1 a1, token TokenNODEKIND ''Song'' a2, token TokenWHERE v3 a3,
         token TokenVALUE ''name'' a4, token TokenEQ v5 a5, token TokenVALUE ''Aria1'' a6,
         token TokenEOF v7 a7])
     = Inr [Some TokenNODEKIND, Some TokenWHERE]"
  by (simp add: parser_defs parser_simps childTokenIDs_def)

text \<open>
  C4: for the tokens of \<open>1 + 2 * 3\<close>, \<open>Parse\<close> returns
  \<open>(PLUS (VALUE "1") (TIMES (VALUE "2") (VALUE "3")))\<close>; for the tokens of \<open>(1 + 2) * 3\<close>
  it returns \<open>(TIMES (PLUS (VALUE "1") (VALUE "2")) (VALUE "3"))\<close>, and no node of the
  second tree carries one of the two parenthesis tokens.
\<close>

theorem parse_precedence:
  "map_sum failureType shape
     (Parse nm
        [token TokenVALUE ''1'' a1, token TokenPLUS v2 a2, token TokenVALUE ''2'' a3,
         token TokenTIMES v4 a4, token TokenVALUE ''3'' a5, token TokenEOF v6 a6])
     = Inr (Shape NodePLUS (Some v2)
              [Shape NodeVALUE (Some ''1'') [],
               Shape NodeTIMES (Some v4)
                 [Shape NodeVALUE (Some ''2'') [], Shape NodeVALUE (Some ''3'') []]])
   \<and> map_sum failureType shape
     (Parse nm
        [token TokenLPAREN w1 b1, token TokenVALUE ''1'' b2, token TokenPLUS w3 b3,
         token TokenVALUE ''2'' b4, token TokenRPAREN w5 b5, token TokenTIMES w6 b6,
         token TokenVALUE ''3'' b7, token TokenEOF w8 b8])
     = Inr (Shape NodeTIMES (Some w6)
              [Shape NodePLUS (Some w3)
                 [Shape NodeVALUE (Some ''1'') [], Shape NodeVALUE (Some ''2'') []],
               Shape NodeVALUE (Some ''3'') []])
   \<and> map_sum failureType treeTokenIDs
     (Parse nm
        [token TokenLPAREN w1 b1, token TokenVALUE ''1'' b2, token TokenPLUS w3 b3,
         token TokenVALUE ''2'' b4, token TokenRPAREN w5 b5, token TokenTIMES w6 b6,
         token TokenVALUE ''3'' b7, token TokenEOF w8 b8])
     = Inr [Some TokenTIMES, Some TokenPLUS, Some TokenVALUE, Some TokenVALUE, Some TokenVALUE]"
  by (simp add: parser_defs parser_simps)

text \<open>
  C6: for the tokens of \<open>get\<close> and for those of \<open>1 +\<close>, \<open>Parse\<close> fails with an
  \<open>UnexpectedEnd\<close> error; for the tokens of \<open>+ 1\<close> it succeeds and returns a \<open>PLUS\<close> node
  with exactly one child, \<open>(VALUE "1")\<close>.
\<close>

theorem parse_errors:
  "map_sum failureType shape (Parse nm [token TokenGET v1 a1, token TokenEOF v2 a2])
     = Inl (Some ErrUnexpectedEnd)
   \<and> map_sum failureType shape
     (Parse nm [token TokenVALUE ''1'' b1, token TokenPLUS w2 b2, token TokenEOF w3 b3])
     = Inl (Some ErrUnexpectedEnd)
   \<and> map_sum failureType shape
     (Parse nm [token TokenPLUS u1 c1, token TokenVALUE ''1'' c2, token TokenEOF u3 c3])
     = Inr (Shape NodePLUS (Some u1) [Shape NodeVALUE (Some ''1'') []])"
  by (simp add: parser_defs parser_simps)

lemma isInfix_binding: "isInfix t \<Longrightarrow> 0 < tokenBinding t"
  by (cases t) (simp_all add: isInfix_def tokenBinding_def proto_def)

text \<open>
  C5: infix operators of equal binding power are left-associative. For three operands
  \<open>a\<close>, \<open>b\<close> and \<open>c\<close> (tokens that \<open>astNodeMap\<close> treats as terminals) joined by two
  operators \<open>op1\<close> and \<open>op2\<close> whose left denotation is \<open>ldInfix\<close> and whose binding powers
  are equal, \<open>Parse\<close> returns the left-nested tree \<open>(op2 (op1 a b) c)\<close>.
\<close>

theorem infix_left_associative:
  assumes "isTerminal (ID a)" and "isTerminal (ID b)" and "isTerminal (ID c)"
    and "isInfix (ID op1)" and "isInfix (ID op2)"
    and "tokenBinding (ID op1) = tokenBinding (ID op2)"
    and "ID e = TokenEOF"
  shows "map_sum failureType shape (Parse nm [a, op1, b, op2, c, e])
     = Inr (Shape (tokenName (ID op2)) (Some (Val op2))
              [Shape (tokenName (ID op1)) (Some (Val op1))
                 [Shape (tokenName (ID a)) (Some (Val a)) [],
                  Shape (tokenName (ID b)) (Some (Val b)) []],
               Shape (tokenName (ID c)) (Some (Val c)) []])"
proof -
  from assms(1-5) obtain na nb nc n1 n2 where
    m: "astNodeMap (ID a) = Some na" "astNodeMap (ID b) = Some nb" "astNodeMap (ID c) = Some nc"
       "astNodeMap (ID op1) = Some n1" "astNodeMap (ID op2) = Some n2"
    and d: "nullDenotation na = Some NdTerm" "nullDenotation nb = Some NdTerm"
       "nullDenotation nc = Some NdTerm" "leftDenotation n1 = Some LdInfix"
       "leftDenotation n2 = Some LdInfix"
    by (auto simp: isTerminal_def isInfix_def split: option.split_asm)
  from m have ne: "ID a \<noteq> TokenError" "ID b \<noteq> TokenError" "ID c \<noteq> TokenError"
    "ID op1 \<noteq> TokenError" "ID op2 \<noteq> TokenError"
    by auto
  from isInfix_binding[OF assms(4)] isInfix_binding[OF assms(5)] assms(6) m
  have b: "0 < binding n1" "0 < binding n2" "binding n1 = binding n2"
    by (simp_all add: tokenBinding_def)
  obtain na1 na2 na3 na4 na5 na6 na7 where na: "na = ASTNode na1 na2 na3 na4 na5 na6 na7" by (cases na)
  obtain nb1 nb2 nb3 nb4 nb5 nb6 nb7 where nb: "nb = ASTNode nb1 nb2 nb3 nb4 nb5 nb6 nb7" by (cases nb)
  obtain nc1 nc2 nc3 nc4 nc5 nc6 nc7 where nc: "nc = ASTNode nc1 nc2 nc3 nc4 nc5 nc6 nc7" by (cases nc)
  obtain x1 x2 x3 x4 x5 x6 x7 where n1: "n1 = ASTNode x1 x2 x3 x4 x5 x6 x7" by (cases n1)
  obtain y1 y2 y3 y4 y5 y6 y7 where n2: "n2 = ASTNode y1 y2 y3 y4 y5 y6 y7" by (cases n2)
  from m d ne b assms(7) show ?thesis
    by (simp add: parser_defs parser_simps tokenName_def na nb nc n1 n2)
qed

theorem infix_left_associative_witness:
  "isTerminal TokenVALUE \<and> isInfix TokenAND \<and> tokenBinding TokenAND = tokenBinding TokenAND \<and>
   map_sum failureType shape
     (Parse ''demo''
        [token TokenVALUE ''a'' (0, 1, 1), token TokenAND ''and'' (2, 1, 3),
         token TokenVALUE ''b'' (6, 1, 7), token TokenAND ''and'' (8, 1, 9),
         token TokenVALUE ''c'' (12, 1, 13), token TokenEOF [] (13, 1, 14)])
     = Inr (Shape NodeAND (Some ''and'')
              [Shape NodeAND (Some ''and'')
                 [Shape NodeVALUE (Some ''a'') [], Shape NodeVALUE (Some ''b'') []],
               Shape NodeVALUE (Some ''c'') []])"
  using infix_left_associative[of "token TokenVALUE ''a'' (0, 1, 1)"
      "token TokenVALUE ''b'' (6, 1, 7)" "token TokenVALUE ''c'' (12, 1, 13)"
      "token TokenAND ''and'' (2, 1, 3)" "token TokenAND ''and'' (8, 1, 9)"
      "token TokenEOF [] (13, 1, 14)" "''demo''"]
  by (simp add: isTerminal_def isInfix_def tokenBinding_def tokenName_def proto_def token_def)


text \<open>A token that \<open>parser.next\<close> turns into a node.\<close>

definition knownToken :: "LexToken \<Rightarrow> bool" where
  "knownToken t \<longleftrightarrow> ID t \<noteq> TokenError \<and> astNodeMap (ID t) \<noteq> None"

lemma advance_name: "advance p = (e, p1) \<Longrightarrow> name p1 = name p"
  by (auto simp: advance_def parser_next_def split: list.split_asm if_split_asm option.split_asm)

text \<open>
  C8 as stated fails: \<open>run\<close> advances to the next token before it looks at the null
  denotation. The \<open>COMMA\<close> token has no null denotation, yet for a comma followed by a
  lexer error \<open>Parse\<close> fails with a \<open>LexicalError\<close> error, not with
  \<open>ImpossibleNullDenotation\<close>.
\<close>

theorem impossible_denotation_counterexample:
  "map_option nullDenotation (astNodeMap TokenCOMMA) = Some None \<and>
   map_sum failureType shape
     (Parse ''demo'' [token TokenCOMMA '','' (0, 1, 1), token TokenError ''bad'' (1, 1, 2)])
     = Inl (Some ErrLexicalError)"
  by (simp add: parser_defs parser_simps)

text \<open>
  C8, amended: in \<open>run\<close>, if the node taken at the start of an expression has no null
  denotation and the parser can advance to the next token, \<open>run\<close> fails with an
  \<open>ImpossibleNullDenotation\<close> error that names the token of that node; and if, in the loop
  of \<open>run\<close>, the binding power of the current node exceeds \<open>rightBinding\<close>, the node has no
  left denotation and the parser can advance to the next token, the loop fails with an
  \<open>ImpossibleLeftDenotation\<close> error that names the token of that node. No tree is
  returned in either case. For the expression at the top level this is what \<open>Parse\<close>
  returns: for a first token without null denotation followed by a known token, and for a
  terminal followed by a token of positive binding power without left denotation and a
  known token.
\<close>

theorem impossible_denotation:
  "(node p = Some n \<and> Token n = Some t \<and> advance p = (None, p1) \<and> nullDenotation n = None
      \<longrightarrow> run p rb
            = Inl (Err (Error (name p) ErrImpossibleNullDenotation (DetailToken t) t)))
   \<and> (node p = Some n \<and> Token n = Some t \<and> advance p = (None, p1) \<and> rb < binding n
        \<and> leftDenotation n = None
      \<longrightarrow> run_loop p rb left
            = Inl (Err (Error (name p) ErrImpossibleLeftDenotation (DetailToken t) t)))
   \<and> (astNodeMap (ID t1) = Some n1 \<and> nullDenotation n1 = None \<and> knownToken t2
      \<longrightarrow> Parse nm (t1 # t2 # rest)
            = Inl (Err (Error nm ErrImpossibleNullDenotation (DetailToken t1) t1)))
   \<and> (isTerminal (ID t1) \<and> astNodeMap (ID t2) = Some n2 \<and> 0 < binding n2
        \<and> leftDenotation n2 = None \<and> knownToken t3
      \<longrightarrow> Parse nm (t1 # t2 # t3 # rest)
            = Inl (Err (Error nm ErrImpossibleLeftDenotation (DetailToken t2) t2)))"
proof (intro conjI impI)
  assume "node p = Some n \<and> Token n = Some t \<and> advance p = (None, p1) \<and> nullDenotation n = None"
  then show "run p rb = Inl (Err (Error (name p) ErrImpossibleNullDenotation (DetailToken t) t))"
    using advance_name[of p None p1]
    by (subst run.simps) (simp add: newParserError_def)
next
  assume "node p = Some n \<and> Token n = Some t \<and> advance p = (None, p1) \<and> rb < binding n
        \<and> leftDenotation n = None"
  then show "run_loop p rb left
      = Inl (Err (Error (name p) ErrImpossibleLeftDenotation (DetailToken t) t))"
    using advance_name[of p None p1]
    by (subst run_loop.simps) (simp add: newParserError_def)
next
  assume a: "astNodeMap (ID t1) = Some n1 \<and> nullDenotation n1 = None \<and> knownToken t2"
  then have "ID t1 \<noteq> TokenError" by auto
  moreover from a obtain m2 where "astNodeMap (ID t2) = Some m2" "ID t2 \<noteq> TokenError"
    by (auto simp: knownToken_def)
  ultimately show "Parse nm (t1 # t2 # rest)
      = Inl (Err (Error nm ErrImpossibleNullDenotation (DetailToken t1) t1))"
    using a by (simp add: parser_defs run.simps)
next
  assume a: "isTerminal (ID t1) \<and> astNodeMap (ID t2) = Some n2 \<and> 0 < binding n2
        \<and> leftDenotation n2 = None \<and> knownToken t3"
  then obtain m1 where m1: "astNodeMap (ID t1) = Some m1" "nullDenotation m1 = Some NdTerm"
    by (auto simp: isTerminal_def split: option.split_asm)
  from a obtain m3 where m3: "astNodeMap (ID t3) = Some m3" "ID t3 \<noteq> TokenError"
    by (auto simp: knownToken_def)
  from m1 a have ne: "ID t1 \<noteq> TokenError" "ID t2 \<noteq> TokenError" by auto
  from a m1 m3 ne show "Parse nm (t1 # t2 # t3 # rest)
      = Inl (Err (Error nm ErrImpossibleLeftDenotation (DetailToken t2) t2))"
    by (simp add: parser_defs run.simps run_loop.simps callNullDenotation.simps)
qed

theorem impossible_denotation_witness:
  "run \<lparr>name = ''demo'',
        node = Some (ASTNode NodeCOMMA (Some (token TokenCOMMA '','' (0, 1, 1))) [] None 0 None None),
        tokens = [token TokenEOF [] (1, 1, 2)], rp = None\<rparr> 0
     = Inl (Err (Error ''demo'' ErrImpossibleNullDenotation
                   (DetailToken (token TokenCOMMA '','' (0, 1, 1)))
                   (token TokenCOMMA '','' (0, 1, 1))))
   \<and> run_loop \<lparr>name = ''demo'',
        node = Some (ASTNode NodeNOT (Some (token TokenNOT ''not'' (2, 1, 3))) [] None 20
                       (Some NdPrefix) None),
        tokens = [token TokenVALUE ''2'' (6, 1, 7), token TokenEOF [] (7, 1, 8)], rp = None\<rparr> 0
        (ASTNode NodeVALUE (Some (token TokenVALUE ''1'' (0, 1, 1))) [] None 0 (Some NdTerm) None)
     = Inl (Err (Error ''demo'' ErrImpossibleLeftDenotation
                   (DetailToken (token TokenNOT ''not'' (2, 1, 3)))
                   (token TokenNOT ''not'' (2, 1, 3))))
   \<and> Parse ''demo'' [token TokenCOMMA '','' (0, 1, 1), token TokenEOF [] (1, 1, 2)]
     = Inl (Err (Error ''demo'' ErrImpossibleNullDenotation
                   (DetailToken (token TokenCOMMA '','' (0, 1, 1)))
                   (token TokenCOMMA '','' (0, 1, 1))))
   \<and> Parse ''demo'' [token TokenVALUE ''1'' (0, 1, 1), token TokenNOT ''not'' (2, 1, 3),
                     token TokenVALUE ''2'' (6, 1, 7), token TokenEOF [] (7, 1, 8)]
     = Inl (Err (Error ''demo'' ErrImpossibleLeftDenotation
                   (DetailToken (token TokenNOT ''not'' (2, 1, 3)))
                   (token TokenNOT ''not'' (2, 1, 3))))"
  using impossible_denotation[of
      "\<lparr>name = ''demo'',
        node = Some (ASTNode NodeCOMMA (Some (token TokenCOMMA '','' (0, 1, 1))) [] None 0 None None),
        tokens = [token TokenEOF [] (1, 1, 2)], rp = None\<rparr>"
      "ASTNode NodeCOMMA (Some (token TokenCOMMA '','' (0, 1, 1))) [] None 0 None None"
      "token TokenCOMMA '','' (0, 1, 1)"
      "\<lparr>name = ''demo'',
        node = Some (ASTNode NodeEOF (Some (token TokenEOF [] (1, 1, 2))) [] None 0 (Some NdTerm) None),
        tokens = [], rp = None\<rparr>"
      0 undefined "token TokenCOMMA '','' (0, 1, 1)" "proto NodeCOMMA 0 None None"
      "token TokenEOF [] (1, 1, 2)" "''demo''" "[]" undefined undefined]
    impossible_denotation[of
      "\<lparr>name = ''demo'',
        node = Some (ASTNode NodeNOT (Some (token TokenNOT ''not'' (2, 1, 3))) [] None 20
                       (Some NdPrefix) None),
        tokens = [token TokenVALUE ''2'' (6, 1, 7), token TokenEOF [] (7, 1, 8)], rp = None\<rparr>"
      "ASTNode NodeNOT (Some (token TokenNOT ''not'' (2, 1, 3))) [] None 20 (Some NdPrefix) None"
      "token TokenNOT ''not'' (2, 1, 3)"
      "\<lparr>name = ''demo'',
        node = Some (ASTNode NodeVALUE (Some (token TokenVALUE ''2'' (6, 1, 7))) [] None 0
                       (Some NdTerm) None),
        tokens = [token TokenEOF [] (7, 1, 8)], rp = None\<rparr>"
      0 "ASTNode NodeVALUE (Some (token TokenVALUE ''1'' (0, 1, 1))) [] None 0 (Some NdTerm) None"
      "token TokenVALUE ''1'' (0, 1, 1)" undefined
      "token TokenNOT ''not'' (2, 1, 3)" "''demo''" "[token TokenEOF [] (7, 1, 8)]"
      "proto NodeNOT 20 (Some NdPrefix) None" "token TokenVALUE ''2'' (6, 1, 7)"]
  by (simp add: parser_defs knownToken_def isTerminal_def)





end
